theory Spec2Isabelle
  imports Main
begin

unbundle bit_operations_syntax

section \<open>The I2C controller of pyripherals (I2CController.py)\<close>

text \<open>
  The controller drives a register-mapped I2C engine on an FPGA. Python integers are
  unbounded, so they are \<^typ>\<open>int\<close>; \<open>a << n\<close> is \<^term>\<open>push_bit n a\<close>, \<open>a >> n\<close> is
  \<^term>\<open>drop_bit n a\<close>, and \<open>&\<close>, \<open>|\<close> are \<open>AND\<close>, \<open>OR\<close> on \<^typ>\<open>int\<close> (two's complement,
  as in Python). A list cell that may hold Python's \<open>None\<close> is an \<^typ>\<open>int option\<close>.
\<close>

subsection \<open>Data\<close>

text \<open>
  An endpoint is a handle on a hardware register or trigger. The class \<open>Endpoint\<close> is
  declared elsewhere in the package; the controller reads two of its attributes.
  Bit indices are positions inside a register and so are natural numbers.
\<close>

record endpoint =
  address :: int
  bit_index_low :: nat

text \<open>
  Everything the controller asks of the outside world, in the order it asks:
  the calls on \<open>self.fpga.xem\<close> and \<open>self.fpga\<close>, \<open>time.sleep\<close> (in milliseconds:
  \<open>time.sleep(0.001)\<close> is \<open>Sleep_ms 1\<close>, \<open>time.sleep(0.01)\<close> is \<open>Sleep_ms 10\<close>) and \<open>print\<close>.
\<close>

datatype event =
    ActivateTriggerIn int nat
  | SetWireInValue int int int
  | UpdateWireIns
  | UpdateTriggerOuts
  | IsTriggered int int
  | UpdateWireOuts
  | GetWireOutValue int
  | ReadPipeOut int int
  | Sleep_ms nat
  | Print string

text \<open>
  The FPGA as the controller sees it: the log of the calls made so far, and the answers
  of the device to the calls that return a value. The answer to the \<open>n\<close>-th call of
  \<open>IsTriggered\<close> is \<open>triggered n\<close>, the answer to the \<open>n\<close>-th call of \<open>GetWireOutValue\<close> is
  \<open>wire_out n\<close>, \<open>read_pipe_out(addr, length)\<close> answers \<open>pipe_out addr length\<close>, a
  buffer and an error code, and \<open>ActivateTriggerIn(addr, bit)\<close> answers the integer
  \<open>trigger_answer addr bit\<close>, which only \<open>reset_device\<close> hands on.
\<close>

record fpga =
  calls :: "event list"
  triggered :: "nat \<Rightarrow> bool"
  polls :: nat
  wire_out :: "nat \<Rightarrow> int"
  reads :: nat
  pipe_out :: "int \<Rightarrow> int \<Rightarrow> int list \<times> int"
  trigger_answer :: "int \<Rightarrow> nat \<Rightarrow> int"

text \<open>The dictionary \<open>self.i2c\<close>, with its two keys.\<close>

record i2c_dict =
  m_pBuf :: "int option list"
  m_nDataStart :: int

text \<open>
  A controller during a method call: the dictionary \<open>self.i2c\<close> refers to, the FPGA,
  \<open>self.addr_pins\<close> and the dictionary \<open>self.endpoints\<close>.
\<close>

record self =
  i2c :: i2c_dict
  fpga :: fpga
  addr_pins :: int
  endpoints :: "string \<rightharpoonup> endpoint"

text \<open>The exceptions the code can raise, and the values its methods return.\<close>

datatype pyerr = KeyError string | IndexError | TypeError

datatype pyvalue =
    PyNone
  | PyTrue
  | PyData "int option list"
  | PyPipe "int list" int
  | PyInt int

subsection \<open>Statements: state passing with exceptions\<close>

text \<open>
  A statement takes the controller and returns it updated, with either the exception
  raised (\<open>Inl\<close>) or a value (\<open>Inr\<close>). The state at the moment of a raise is kept:
  what was written and pulsed before stays so.
\<close>

type_synonym 'a py = "self \<Rightarrow> self \<times> (pyerr + 'a)"

definition ret :: "'a \<Rightarrow> 'a py" where
  "ret x = (\<lambda>s. (s, Inr x))"

definition raise :: "pyerr \<Rightarrow> 'a py" where
  "raise e = (\<lambda>s. (s, Inl e))"

definition and_then :: "'a py \<Rightarrow> ('a \<Rightarrow> 'b py) \<Rightarrow> 'b py" where
  "and_then m f = (\<lambda>s. case m s of (s', Inl e) \<Rightarrow> (s', Inl e) | (s', Inr x) \<Rightarrow> f x s')"

definition seq :: "unit py \<Rightarrow> 'a py \<Rightarrow> 'a py" where
  "seq m k = and_then m (\<lambda>_. k)"

text \<open>
  A \<open>for\<close> loop over the indices \<open>is\<close>. The body answers \<open>Some v\<close> when it executes
  \<open>return v\<close>, which leaves the loop, and \<open>None\<close> when it falls through to the next
  iteration. The loop answers \<open>None\<close> when it runs to its end.
\<close>

primrec for_loop :: "nat list \<Rightarrow> (nat \<Rightarrow> 'a option py) \<Rightarrow> 'a option py" where
  "for_loop [] body = ret None"
| "for_loop (i # is) body =
     and_then (body i) (\<lambda>r. case r of Some v \<Rightarrow> ret (Some v) | None \<Rightarrow> for_loop is body)"

text \<open>A loop whose body has no \<open>return\<close>.\<close>

primrec for_each :: "nat list \<Rightarrow> (nat \<Rightarrow> unit py) \<Rightarrow> unit py" where
  "for_each [] body = ret ()"
| "for_each (i # is) body = seq (body i) (for_each is body)"

text \<open>\<open>range(n)\<close> for a Python integer \<open>n\<close>: empty when \<open>n\<close> is not positive.\<close>

definition py_range :: "int \<Rightarrow> nat list" where
  "py_range n = [0..<nat n]"

subsection \<open>Primitive statements\<close>

text \<open>A call on the FPGA that returns nothing, \<open>time.sleep\<close> and \<open>print\<close>: logged.\<close>

definition emit :: "event \<Rightarrow> unit py" where
  "emit e = (\<lambda>s. (s\<lparr>fpga := (fpga s)\<lparr>calls := calls (fpga s) @ [e]\<rparr>\<rparr>, Inr ()))"

text \<open>\<open>self.endpoints[name]\<close>: a missing key raises \<open>KeyError\<close>.\<close>

definition ep :: "string \<Rightarrow> endpoint py" where
  "ep name = (\<lambda>s. case endpoints s name of
                     None \<Rightarrow> (s, Inl (KeyError name))
                   | Some e \<Rightarrow> (s, Inr e))"

text \<open>\<open>self.fpga.xem.ActivateTriggerIn(self.endpoints[name].address,
  self.endpoints[name].bit_index_low)\<close>.\<close>

definition pulse :: "string \<Rightarrow> unit py" where
  "pulse name = and_then (ep name) (\<lambda>e. emit (ActivateTriggerIn (address e) (bit_index_low e)))"

text \<open>\<open>self.i2c['m_pBuf'] = buf\<close> and \<open>self.i2c['m_nDataStart'] = n\<close>.\<close>

definition set_m_pBuf :: "int option list \<Rightarrow> unit py" where
  "set_m_pBuf buf = (\<lambda>s. (s\<lparr>i2c := (i2c s)\<lparr>m_pBuf := buf\<rparr>\<rparr>, Inr ()))"

definition set_m_nDataStart :: "int \<Rightarrow> unit py" where
  "set_m_nDataStart n = (\<lambda>s. (s\<lparr>i2c := (i2c s)\<lparr>m_nDataStart := n\<rparr>\<rparr>, Inr ()))"

text \<open>\<open>self.i2c['m_pBuf'][i]\<close> for an index \<open>i \<ge> 0\<close>: out of range raises \<open>IndexError\<close>.\<close>

definition buf_get :: "nat \<Rightarrow> int option py" where
  "buf_get i = (\<lambda>s. if i < length (m_pBuf (i2c s))
                     then (s, Inr (m_pBuf (i2c s) ! i))
                     else (s, Inl IndexError))"

text \<open>\<open>self.i2c['m_pBuf'][i] = v\<close> for an index \<open>i \<ge> 0\<close>.\<close>

definition buf_set :: "nat \<Rightarrow> int option \<Rightarrow> unit py" where
  "buf_set i v = (\<lambda>s. if i < length (m_pBuf (i2c s))
                       then (s\<lparr>i2c := (i2c s)\<lparr>m_pBuf := (m_pBuf (i2c s))[i := v]\<rparr>\<rparr>, Inr ())
                       else (s, Inl IndexError))"

text \<open>\<open>self.i2c['m_pBuf'].append(v)\<close>.\<close>

definition buf_append :: "int option \<Rightarrow> unit py" where
  "buf_append v = (\<lambda>s. (s\<lparr>i2c := (i2c s)\<lparr>m_pBuf := m_pBuf (i2c s) @ [v]\<rparr>\<rparr>, Inr ()))"

text \<open>\<open>xs[i]\<close> on an argument list, for an index \<open>i \<ge> 0\<close>.\<close>

definition item :: "'a list \<Rightarrow> nat \<Rightarrow> 'a py" where
  "item xs i = (if i < length xs then ret (xs ! i) else raise IndexError)"

text \<open>An operand of \<open><<\<close> or \<open>|=\<close> must be an integer: \<open>None\<close> raises \<open>TypeError\<close>.\<close>

definition as_int :: "int option \<Rightarrow> int py" where
  "as_int v = (case v of None \<Rightarrow> raise TypeError | Some n \<Rightarrow> ret n)"

subsection \<open>\<open>i2c_configure\<close>\<close>

definition i2c_configure :: "int \<Rightarrow> int \<Rightarrow> int \<Rightarrow> int option list \<Rightarrow> pyvalue py" where
  "i2c_configure preamble_length starts stops preamble =
     seq (if preamble_length > 7 then emit (Print ''Preamble data is too long'') else ret ())
    (seq (set_m_pBuf (replicate (nat (4 + preamble_length)) None))
    (seq (buf_set 0 (Some preamble_length))
    (seq (buf_set 1 (Some starts))
    (seq (buf_set 2 (Some stops))
    (seq (buf_set 3 (Some 0))
    (seq (for_each (py_range preamble_length)
            (\<lambda>i. and_then (item preamble i) (\<lambda>p. buf_set (4 + i) p)))
    (seq (set_m_nDataStart (4 + preamble_length))
         (ret PyNone))))))))"

subsection \<open>Streaming the buffer and polling\<close>

text \<open>\<open>self.i2c['m_nDataStart']\<close>.\<close>

definition get_m_nDataStart :: "int py" where
  "get_m_nDataStart = (\<lambda>s. (s, Inr (m_nDataStart (i2c s))))"

text \<open>
  \<open>self.fpga.xem.IsTriggered(addr, mask)\<close> and \<open>self.fpga.xem.GetWireOutValue(addr)\<close>:
  the call is logged and the device's next answer is returned.
\<close>

definition is_triggered :: "int \<Rightarrow> int \<Rightarrow> bool py" where
  "is_triggered addr bits =
     (\<lambda>s. (s\<lparr>fpga := (fpga s)\<lparr>calls := calls (fpga s) @ [IsTriggered addr bits],
                                  polls := Suc (polls (fpga s))\<rparr>\<rparr>,
           Inr (triggered (fpga s) (polls (fpga s)))))"

definition get_wire_out_value :: "int \<Rightarrow> int py" where
  "get_wire_out_value addr =
     (\<lambda>s. (s\<lparr>fpga := (fpga s)\<lparr>calls := calls (fpga s) @ [GetWireOutValue addr],
                                  reads := Suc (reads (fpga s))\<rparr>\<rparr>,
           Inr (wire_out (fpga s) (reads (fpga s)))))"

text \<open>\<open>self.fpga.read_pipe_out(addr, length)\<close>, which answers a buffer and an error code.\<close>

definition read_pipe_out :: "int \<Rightarrow> int \<Rightarrow> pyvalue py" where
  "read_pipe_out addr len =
     (\<lambda>s. (s\<lparr>fpga := (fpga s)\<lparr>calls := calls (fpga s) @ [ReadPipeOut addr len]\<rparr>\<rparr>,
           Inr (case pipe_out (fpga s) addr len of (buf, e) \<Rightarrow> PyPipe buf e)))"

text \<open>
  The body of the loop that transfers the buffer, the same in \<open>i2c_transmit\<close> and in
  \<open>i2c_receive\<close>: the mask is computed first (so a missing \<open>IN\<close> endpoint is the first
  failure), then the cell is read and shifted, then the three calls are made.
\<close>

definition wire_in :: "nat \<Rightarrow> unit py" where
  "wire_in i =
     and_then (ep ''IN'') (\<lambda>e.
     and_then (buf_get i) (\<lambda>cell.
     and_then (as_int cell) (\<lambda>b.
     seq (emit (SetWireInValue (address e) (push_bit (bit_index_low e) b)
                                (push_bit (bit_index_low e) 255)))
    (seq (emit UpdateWireIns)
         (pulse ''MEMWRITE'')))))"

definition I2C_MAX_TIMEOUT_MS :: int where
  "I2C_MAX_TIMEOUT_MS = 50"

subsection \<open>\<open>i2c_transmit\<close>\<close>

text \<open>One round of the wait in \<open>i2c_transmit\<close>.\<close>

definition transmit_poll :: "nat \<Rightarrow> pyvalue option py" where
  "transmit_poll i =
     seq (emit UpdateTriggerOuts)
    (and_then (ep ''DONE'') (\<lambda>d.
     and_then (is_triggered (address d) (push_bit (bit_index_low d) 1)) (\<lambda>t.
       if t then ret (Some PyTrue)
       else seq (emit (Sleep_ms 1)) (ret None))))"

definition i2c_transmit :: "int list \<Rightarrow> int \<Rightarrow> pyvalue py" where
  "i2c_transmit data data_length =
     seq (buf_set 3 (Some data_length))
    (seq (for_each (py_range data_length)
            (\<lambda>i. and_then (item data i) (\<lambda>d. buf_append (Some d))))
    (seq (pulse ''MEMSTART'')
    (and_then get_m_nDataStart (\<lambda>n.
     seq (for_each (py_range (data_length + n)) wire_in)
    (seq (pulse ''START'')
    (and_then (for_loop (py_range I2C_MAX_TIMEOUT_MS) transmit_poll) (\<lambda>r.
       case r of
         Some v \<Rightarrow> ret v
       | None \<Rightarrow> seq (emit (Print ''Timeout error in transmit'')) (ret PyNone))))))))"

subsection \<open>\<open>i2c_receive\<close>\<close>

text \<open>
  \<open>str.lower()\<close>. The result is only compared with \<open>'pipe'\<close> and \<open>'wire'\<close>, and no
  string with a character outside ASCII lowers to either of them, so lowering the ASCII
  capitals decides the comparisons as Python does.
\<close>

definition lower_char :: "char \<Rightarrow> char" where
  "lower_char c =
     (let n = (of_char c :: nat) in if 65 \<le> n \<and> n \<le> 90 then char_of (n + 32) else c)"

definition lower :: "string \<Rightarrow> string" where
  "lower cs = map lower_char cs"

text \<open>
  A loop that carries a local variable: \<open>body i a\<close> answers the variable's new value.
\<close>

primrec for_acc :: "nat list \<Rightarrow> (nat \<Rightarrow> 'a \<Rightarrow> 'a py) \<Rightarrow> 'a \<Rightarrow> 'a py" where
  "for_acc [] body a = ret a"
| "for_acc (i # is) body a = and_then (body i a) (for_acc is body)"

text \<open>The wire-mode readout: \<open>data\<close> is the local list, filled cell by cell.\<close>

definition wire_read :: "nat \<Rightarrow> int option list \<Rightarrow> int option list py" where
  "wire_read i data =
     seq (emit UpdateWireOuts)
    (and_then (ep ''OUT'') (\<lambda>e.
     and_then (get_wire_out_value (address e)) (\<lambda>data_tmp.
     seq (pulse ''MEMREAD'')
         (ret (data[i := Some (drop_bit (bit_index_low e)
                                 (data_tmp AND push_bit (bit_index_low e) 255))])))))"

definition wire_readout :: "int \<Rightarrow> pyvalue py" where
  "wire_readout data_length =
     seq (pulse ''MEMSTART'')
    (and_then (for_acc (py_range data_length) wire_read (replicate (nat data_length) None))
       (\<lambda>data. ret (PyData data)))"

text \<open>One round of the wait in \<open>i2c_receive\<close>.\<close>

definition receive_poll :: "int \<Rightarrow> string \<Rightarrow> bool \<Rightarrow> nat \<Rightarrow> pyvalue option py" where
  "receive_poll data_length data_transfer readout i =
     seq (emit UpdateTriggerOuts)
    (and_then (ep ''DONE'') (\<lambda>d.
     and_then (is_triggered (address d) (push_bit (bit_index_low d) 1)) (\<lambda>t.
     and_then
       (if t then
          (if \<not> readout then ret (Some PyNone)
           else if lower data_transfer = ''wire'' then
             and_then (wire_readout data_length) (\<lambda>v. ret (Some v))
           else if lower data_transfer = ''pipe'' then
             and_then (ep ''PIPE_OUT'') (\<lambda>p.
             and_then (read_pipe_out (address p) data_length) (\<lambda>v. ret (Some v)))
           else ret None)
        else ret None)
       (\<lambda>r. case r of
          Some v \<Rightarrow> ret (Some v)
        | None \<Rightarrow> seq (emit (Sleep_ms 10)) (ret None)))))"

text \<open>The check of the two endpoints of the pipe, with the \<open>KeyError\<close> it raises.\<close>

definition require_pipe_endpoints :: "unit py" where
  "require_pipe_endpoints =
     (\<lambda>s. if endpoints s ''FIFO_RESET'' = None \<or> endpoints s ''PIPE_OUT'' = None
          then (s, Inl (KeyError
            ''i2c_receive requires the I2C endpoints FIFO_RESET and PIPE_OUT. One or both are missing.''))
          else (s, Inr ()))"

definition i2c_receive :: "int \<Rightarrow> string \<Rightarrow> bool \<Rightarrow> bool \<Rightarrow> pyvalue py" where
  "i2c_receive data_length data_transfer reset_pipe readout =
     seq (if lower data_transfer = ''pipe'' \<and> reset_pipe
          then seq require_pipe_endpoints (pulse ''FIFO_RESET'')
          else ret ())
    (seq (and_then (buf_get 0) (\<lambda>cell.
          and_then (as_int cell) (\<lambda>b. buf_set 0 (Some (b OR 128)))))
    (seq (buf_set 3 (Some data_length))
    (seq (pulse ''MEMSTART'')
    (and_then get_m_nDataStart (\<lambda>n.
     seq (for_each (py_range n) wire_in)
    (seq (pulse ''START'')
    (and_then (for_loop (py_range (I2C_MAX_TIMEOUT_MS div 10))
                 (receive_poll data_length data_transfer readout)) (\<lambda>r.
       case r of
         Some v \<Rightarrow> ret v
       | None \<Rightarrow> seq (emit (Print ''Timeout Exception in Rx'')) (ret PyNone)))))))))"

subsection \<open>\<open>i2c_write_long\<close>, \<open>i2c_read_long\<close>, \<open>reset_device\<close>\<close>

text \<open>
  \<open>regAddr\<close> is \<open>None\<close> or a list whose cells are integers or \<open>None\<close>; the code tests
  for \<open>None\<close> and for the list \<open>[None]\<close>.
\<close>

definition i2c_write_long :: "int \<Rightarrow> int option list option \<Rightarrow> int \<Rightarrow> int list \<Rightarrow> pyvalue py" where
  "i2c_write_long devAddr regAddr data_length data =
     (let preamble =
            (case regAddr of
               None \<Rightarrow> [Some (devAddr AND 254)]
             | Some rs \<Rightarrow> if rs = [None] then [Some (devAddr AND 254)]
                         else [Some (devAddr AND 254)] @ rs)
      in and_then (i2c_configure (int (length preamble)) 0
                     (push_bit (length preamble) 1) preamble)
           (\<lambda>_. i2c_transmit data data_length))"

definition i2c_read_long ::
  "int \<Rightarrow> int option list option \<Rightarrow> int \<Rightarrow> string \<Rightarrow> bool \<Rightarrow> bool \<Rightarrow> pyvalue py" where
  "i2c_read_long devAddr regAddr data_length data_transfer reset_pipe readout =
     and_then
       (if regAddr = None \<or> regAddr = Some [None]
        then i2c_configure 1 0 0 [Some (devAddr OR 1)]
        else (let rs = the regAddr;
                  preamble = [Some (devAddr AND 254)] @ rs @ [Some (devAddr OR 1)];
                  start_positions = push_bit (length rs) 1
              in i2c_configure (int (length preamble)) start_positions 0 preamble))
       (\<lambda>_. if readout
            then and_then (i2c_receive data_length data_transfer reset_pipe readout)
                   (\<lambda>data. ret data)
            else and_then (i2c_receive data_length data_transfer reset_pipe readout)
                   (\<lambda>_. ret PyNone))"

text \<open>\<open>reset_device\<close> returns what \<open>ActivateTriggerIn\<close> answers.\<close>

definition activate_trigger_in :: "int \<Rightarrow> nat \<Rightarrow> pyvalue py" where
  "activate_trigger_in addr bit_index =
     (\<lambda>s. (s\<lparr>fpga := (fpga s)\<lparr>calls := calls (fpga s) @ [ActivateTriggerIn addr bit_index]\<rparr>\<rparr>,
           Inr (PyInt (trigger_answer (fpga s) addr bit_index))))"

definition reset_device :: "pyvalue py" where
  "reset_device =
     and_then (ep ''RESET'') (\<lambda>e. activate_trigger_in (address e) (bit_index_low e))"

subsection \<open>Instances and the dictionaries they refer to\<close>

text \<open>
  \<open>__init__\<close> stores a reference to the dictionary it is given, not a copy, and its
  default argument \<open>i2c={'m_pBuf': [], 'm_nDataStart': 7}\<close> is evaluated once, when the
  class is defined. So the dictionaries live in a store, an instance holds the address
  of its dictionary, and all instances use the one FPGA.
\<close>

record chip =
  obj_i2c :: nat
  obj_addr_pins :: int
  obj_endpoints :: "string \<rightharpoonup> endpoint"

record heap =
  dicts :: "nat \<rightharpoonup> i2c_dict"
  device :: fpga

text \<open>The address of the default dictionary, and the store once the class is defined.\<close>

definition default_i2c :: nat where
  "default_i2c = 0"

definition class_defined :: "fpga \<Rightarrow> heap" where
  "class_defined dev =
     \<lparr>dicts = [default_i2c \<mapsto> \<lparr>m_pBuf = [], m_nDataStart = 7\<rparr>], device = dev\<rparr>"

text \<open>\<open>__init__\<close> with the reference passed for \<open>i2c\<close>; \<open>create_chips\<close> passes none,
  so every chip gets the default one.\<close>

definition init :: "int \<Rightarrow> (string \<rightharpoonup> endpoint) \<Rightarrow> nat \<Rightarrow> chip" where
  "init addr eps ref = \<lparr>obj_i2c = ref, obj_addr_pins = addr, obj_endpoints = eps\<rparr>"

definition create_chips :: "int list \<Rightarrow> (string \<rightharpoonup> endpoint) \<Rightarrow> chip list" where
  "create_chips pins eps = map (\<lambda>addr. init addr eps default_i2c) pins"

text \<open>A method call on an instance: the method runs on the dictionary the instance
  refers to, and what it leaves there is what the store holds afterwards.\<close>

definition call :: "chip \<Rightarrow> 'a py \<Rightarrow> heap \<Rightarrow> heap \<times> (pyerr + 'a)" where
  "call obj m h =
     (case m \<lparr>i2c = the (dicts h (obj_i2c obj)), fpga = device h,
               addr_pins = obj_addr_pins obj, endpoints = obj_endpoints obj\<rparr> of
        (s', r) \<Rightarrow> (h\<lparr>dicts := (dicts h)(obj_i2c obj \<mapsto> i2c s'), device := fpga s'\<rparr>, r))"

subsection \<open>A concrete controller\<close>

text \<open>
  Endpoints of a wire-mode design (no \<open>FIFO_RESET\<close>, no \<open>PIPE_OUT\<close>), a device whose
  output register shows \<open>0x11\<close>, \<open>0x22\<close>, ... in bits 8 to 15, and a freshly made
  controller on it. The argument says at which polls the device reports \<open>DONE\<close>.
\<close>

definition example_endpoints :: "string \<rightharpoonup> endpoint" where
  "example_endpoints =
     [''MEMSTART'' \<mapsto> \<lparr>address = 64, bit_index_low = 0\<rparr>,
      ''MEMWRITE'' \<mapsto> \<lparr>address = 64, bit_index_low = 1\<rparr>,
      ''MEMREAD'' \<mapsto> \<lparr>address = 64, bit_index_low = 2\<rparr>,
      ''START'' \<mapsto> \<lparr>address = 64, bit_index_low = 3\<rparr>,
      ''RESET'' \<mapsto> \<lparr>address = 64, bit_index_low = 4\<rparr>,
      ''IN'' \<mapsto> \<lparr>address = 1, bit_index_low = 8\<rparr>,
      ''OUT'' \<mapsto> \<lparr>address = 32, bit_index_low = 8\<rparr>,
      ''DONE'' \<mapsto> \<lparr>address = 96, bit_index_low = 0\<rparr>]"

definition example_fpga :: "(nat \<Rightarrow> bool) \<Rightarrow> fpga" where
  "example_fpga trig =
     \<lparr>calls = [], triggered = trig, polls = 0,
      wire_out = (\<lambda>n. 4352 * (1 + int n)), reads = 0,
      pipe_out = (\<lambda>addr len. ([], 0)),
      trigger_answer = (\<lambda>addr bit_index. 0)\<rparr>"

definition example_self :: "(nat \<Rightarrow> bool) \<Rightarrow> self" where
  "example_self trig =
     \<lparr>i2c = \<lparr>m_pBuf = [], m_nDataStart = 7\<rparr>, fpga = example_fpga trig,
      addr_pins = 0, endpoints = example_endpoints\<rparr>"

subsection \<open>The calls a transaction makes\<close>

text \<open>
  The calls that transfer one byte into the device's memory, the calls of one poll of the
  \<open>DONE\<close> flag, \<open>k\<close> polls that each find it not set (with the sleep after each), the
  buffer after \<open>i2c_transmit\<close> has stored the payload length and appended the payload,
  and the calls that reset the write pointer, transfer the bytes and start the
  transaction.
\<close>

definition wire_in_calls :: "endpoint \<Rightarrow> endpoint \<Rightarrow> int \<Rightarrow> event list" where
  "wire_in_calls e w b =
     [SetWireInValue (address e) (push_bit (bit_index_low e) b) (push_bit (bit_index_low e) 255),
      UpdateWireIns,
      ActivateTriggerIn (address w) (bit_index_low w)]"

definition poll_calls :: "endpoint \<Rightarrow> event list" where
  "poll_calls d = [UpdateTriggerOuts, IsTriggered (address d) (push_bit (bit_index_low d) 1)]"

definition wait_calls :: "endpoint \<Rightarrow> nat \<Rightarrow> nat \<Rightarrow> event list" where
  "wait_calls d ms k = concat (replicate k (poll_calls d @ [Sleep_ms ms]))"

definition sent :: "int list \<Rightarrow> int \<Rightarrow> int list \<Rightarrow> int list" where
  "sent bs dl data = bs[3 := dl] @ take (nat dl) data"

definition transfer_calls :: "endpoint \<Rightarrow> endpoint \<Rightarrow> endpoint \<Rightarrow> endpoint \<Rightarrow> int list \<Rightarrow> event list" where
  "transfer_calls ms e w st bytes =
     ActivateTriggerIn (address ms) (bit_index_low ms) #
     concat (map (wire_in_calls e w) bytes) @
     [ActivateTriggerIn (address st) (bit_index_low st)]"



text \<open>The buffer after \<open>i2c_receive\<close> has set the read flag and stored the length.\<close>

definition received :: "int list \<Rightarrow> int \<Rightarrow> int list" where
  "received bs dl = bs[0 := bs ! 0 OR 128, 3 := dl]"

text \<open>The concrete controller once \<open>i2c_configure(1, 0, 0, [0xA1])\<close> has run on it.\<close>

definition example_configured :: "(nat \<Rightarrow> bool) \<Rightarrow> self" where
  "example_configured trig =
     (example_self trig)\<lparr>i2c := \<lparr>m_pBuf = map Some [1, 0, 0, 0, 161], m_nDataStart = 5\<rparr>\<rparr>"

subsection \<open>The read flag between two configurations\<close>

text \<open>
  The read flag is bit 7 of cell 0 of the buffer. The methods other than
  \<open>i2c_configure\<close> (and the two that call it) are \<open>i2c_transmit\<close>, \<open>i2c_receive\<close> and
  \<open>reset_device\<close>; \<open>invoke\<close> gives the controller after one of them has run, whether it
  returned or raised.
\<close>

definition read_flag :: "self \<Rightarrow> bool" where
  "read_flag s = (case m_pBuf (i2c s) of Some b # _ \<Rightarrow> bit b 7 | _ \<Rightarrow> False)"

datatype later_call =
    Transmit "int list" int
  | Receive int string bool bool
  | Reset_device

fun invoke :: "later_call \<Rightarrow> self \<Rightarrow> self" where
  "invoke (Transmit data data_length) s = fst (i2c_transmit data data_length s)"
| "invoke (Receive data_length data_transfer reset_pipe readout) s =
     fst (i2c_receive data_length data_transfer reset_pipe readout s)"
| "invoke Reset_device s = fst (reset_device s)"

text \<open>A statement preserves a property of the controller, however it ends.\<close>

definition preserves :: "(self \<Rightarrow> bool) \<Rightarrow> 'a py \<Rightarrow> bool" where
  "preserves P m = (\<forall>s s' r. P s \<longrightarrow> m s = (s', r) \<longrightarrow> P s')"

section \<open>How the statements run\<close>

text \<open>The statements applied to a controller.\<close>

lemma run_ret: "ret x s = (s, Inr x)"
  by (simp add: ret_def)

lemma run_raise: "raise e s = (s, Inl e)"
  by (simp add: raise_def)


lemma copy_cells:
  "k \<le> length p \<Longrightarrow> k \<le> n \<Longrightarrow>
   fold (\<lambda>i b. b[4 + i := p ! i]) [0..<k] ([a0, a1, a2, a3] @ replicate n None)
     = [a0, a1, a2, a3] @ take k p @ replicate (n - k) None"
proof (induction k)
  case 0
  then show ?case by simp
next
  case (Suc k)
  then have "n - k = Suc (n - Suc k)" by simp
  with Suc show ?case
    by (simp add: list_update_append take_Suc_conv_app_nth del: replicate_Suc replicate.simps) (simp)
qed

lemma copy_loop:
  "\<forall>i\<in>set is. i < length p \<and> 4 + i < length (m_pBuf (i2c s)) \<Longrightarrow>
   for_each is (\<lambda>i. and_then (item p i) (\<lambda>c. buf_set (4 + i) c)) s
     = (s\<lparr>i2c := (i2c s)\<lparr>m_pBuf := fold (\<lambda>i b. b[4 + i := p ! i]) is (m_pBuf (i2c s))\<rparr>\<rparr>, Inr ())"
proof (induction "is" arbitrary: s)
  case Nil
  then show ?case by (simp add: ret_def)
next
  case (Cons i "is")
  then show ?case
    by (simp add: seq_def and_then_def item_def ret_def buf_set_def)
qed

lemma replicate_4_plus: "replicate (4 + n) x = [x, x, x, x] @ replicate n x"
  by (simp add: numeral_eq_Suc)

lemma and_then_apply:
  "and_then m f s = (case m s of (s', Inl e) \<Rightarrow> (s', Inl e) | (s', Inr x) \<Rightarrow> f x s')"
  by (simp add: and_then_def)

lemma seq_apply:
  "seq m k s = (case m s of (s', Inl e) \<Rightarrow> (s', Inl e) | (s', Inr x) \<Rightarrow> k s')"
  by (simp add: seq_def and_then_def)

lemma emit_apply:
  "emit e s = (s\<lparr>fpga := (fpga s)\<lparr>calls := calls (fpga s) @ [e]\<rparr>\<rparr>, Inr ())"
  by (simp add: emit_def)

lemma set_m_pBuf_apply: "set_m_pBuf buf s = (s\<lparr>i2c := (i2c s)\<lparr>m_pBuf := buf\<rparr>\<rparr>, Inr ())"
  by (simp add: set_m_pBuf_def)

lemma set_m_nDataStart_apply:
  "set_m_nDataStart n s = (s\<lparr>i2c := (i2c s)\<lparr>m_nDataStart := n\<rparr>\<rparr>, Inr ())"
  by (simp add: set_m_nDataStart_def)

lemma buf_set_apply:
  "buf_set i v s = (if i < length (m_pBuf (i2c s))
                    then (s\<lparr>i2c := (i2c s)\<lparr>m_pBuf := (m_pBuf (i2c s))[i := v]\<rparr>\<rparr>, Inr ())
                    else (s, Inl IndexError))"
  by (simp add: buf_set_def)

lemma buf_get_apply:
  "buf_get i s = (if i < length (m_pBuf (i2c s)) then (s, Inr (m_pBuf (i2c s) ! i))
                  else (s, Inl IndexError))"
  by (simp add: buf_get_def)

lemma buf_append_apply:
  "buf_append v s = (s\<lparr>i2c := (i2c s)\<lparr>m_pBuf := m_pBuf (i2c s) @ [v]\<rparr>\<rparr>, Inr ())"
  by (simp add: buf_append_def)

lemma ep_apply:
  "ep name s = (case endpoints s name of None \<Rightarrow> (s, Inl (KeyError name)) | Some e \<Rightarrow> (s, Inr e))"
  by (simp add: ep_def)

lemma pulse_apply:
  "pulse name s =
     (case endpoints s name of
        None \<Rightarrow> (s, Inl (KeyError name))
      | Some e \<Rightarrow> (s\<lparr>fpga := (fpga s)\<lparr>calls := calls (fpga s) @
                        [ActivateTriggerIn (address e) (bit_index_low e)]\<rparr>\<rparr>, Inr ()))"
  by (simp add: pulse_def and_then_def ep_def emit_def split: option.splits)

lemmas run_simps = and_then_apply seq_apply run_ret run_raise emit_apply set_m_pBuf_apply
  set_m_nDataStart_apply buf_set_apply buf_get_apply buf_append_apply ep_apply pulse_apply

lemma i2c_configure_run:
  assumes "0 \<le> pl" and "nat pl \<le> length p"
  shows "i2c_configure pl st sp p s =
           (s\<lparr>i2c := (i2c s)\<lparr>m_pBuf := [Some pl, Some st, Some sp, Some 0] @ take (nat pl) p,
                              m_nDataStart := 4 + pl\<rparr>,
              fpga := (fpga s)\<lparr>calls := calls (fpga s) @
                        (if pl > 7 then [Print ''Preamble data is too long''] else [])\<rparr>\<rparr>,
            Inr PyNone)"
proof -
  have n: "nat (4 + pl) = 4 + nat pl" using assms by simp
  have c: "fold (\<lambda>i b. b[4 + i := p ! i]) [0..<nat pl]
             (Some pl # Some st # Some sp # Some 0 # replicate (nat pl) None)
           = Some pl # Some st # Some sp # Some 0 # take (nat pl) p"
    using copy_cells [of "nat pl" p "nat pl" "Some pl" "Some st" "Some sp" "Some 0"] assms
    by simp
  show ?thesis
    using assms
    by (simp add: i2c_configure_def run_simps n replicate_4_plus copy_loop c py_range_def)
qed

lemma get_m_nDataStart_apply: "get_m_nDataStart s = (s, Inr (m_nDataStart (i2c s)))"
  by (simp add: get_m_nDataStart_def)

lemma is_triggered_apply:
  "is_triggered addr bits s =
     (s\<lparr>fpga := (fpga s)\<lparr>calls := calls (fpga s) @ [IsTriggered addr bits],
                            polls := Suc (polls (fpga s))\<rparr>\<rparr>,
      Inr (triggered (fpga s) (polls (fpga s))))"
  by (simp add: is_triggered_def)


text \<open>The loop of \<open>i2c_transmit\<close> that appends the payload.\<close>

lemma append_loop:
  "\<forall>i\<in>set is. i < length data \<Longrightarrow>
   for_each is (\<lambda>i. and_then (item data i) (\<lambda>d. buf_append (Some d))) s
     = (s\<lparr>i2c := (i2c s)\<lparr>m_pBuf := m_pBuf (i2c s) @ map (\<lambda>i. Some (data ! i)) is\<rparr>\<rparr>, Inr ())"
proof (induction "is" arbitrary: s)
  case Nil
  then show ?case by (simp add: run_ret)
next
  case (Cons i "is")
  then show ?case by (simp add: run_simps item_def)
qed

lemma map_nth_upt_take: "k \<le> length xs \<Longrightarrow> map (\<lambda>i. f (xs ! i)) [0..<k] = map f (take k xs)"
  by (simp add: list_eq_iff_nth_eq)

text \<open>The calls that transfer one byte, and the loop that transfers the buffer.\<close>

lemma wire_in_run:
  assumes "endpoints s ''IN'' = Some e" and "endpoints s ''MEMWRITE'' = Some w"
    and "i < length (m_pBuf (i2c s))" and "m_pBuf (i2c s) ! i = Some b"
  shows "wire_in i s = (s\<lparr>fpga := (fpga s)\<lparr>calls := calls (fpga s) @ wire_in_calls e w b\<rparr>\<rparr>, Inr ())"
  using assms by (simp add: wire_in_def run_simps as_int_def wire_in_calls_def)

lemma wire_in_loop:
  assumes "endpoints s ''IN'' = Some e" and "endpoints s ''MEMWRITE'' = Some w"
    and "m_pBuf (i2c s) = map Some bs" and "\<forall>i\<in>set is. i < length bs"
  shows "for_each is wire_in s =
           (s\<lparr>fpga := (fpga s)\<lparr>calls := calls (fpga s) @
                      concat (map (\<lambda>i. wire_in_calls e w (bs ! i)) is)\<rparr>\<rparr>, Inr ())"
  using assms
proof (induction "is" arbitrary: s)
  case Nil
  then show ?case by (simp add: run_ret)
next
  case (Cons i "is")
  from Cons.prems have "wire_in i s =
      (s\<lparr>fpga := (fpga s)\<lparr>calls := calls (fpga s) @ wire_in_calls e w (bs ! i)\<rparr>\<rparr>, Inr ())"
    by (intro wire_in_run) simp_all
  with Cons show ?case by (simp add: seq_apply)
qed

lemma wait_calls_Suc: "wait_calls d ms (Suc k) = poll_calls d @ Sleep_ms ms # wait_calls d ms k"
  by (simp add: wait_calls_def)

lemma transmit_poll_run:
  assumes "endpoints s ''DONE'' = Some d"
  shows "transmit_poll i s =
           (if triggered (fpga s) (polls (fpga s))
            then (s\<lparr>fpga := (fpga s)\<lparr>calls := calls (fpga s) @ poll_calls d,
                                         polls := Suc (polls (fpga s))\<rparr>\<rparr>, Inr (Some PyTrue))
            else (s\<lparr>fpga := (fpga s)\<lparr>calls := calls (fpga s) @ poll_calls d @ [Sleep_ms 1],
                                         polls := Suc (polls (fpga s))\<rparr>\<rparr>, Inr None))"
  using assms by (simp add: transmit_poll_def run_simps is_triggered_apply poll_calls_def)

lemma transmit_wait_done:
  assumes "endpoints s ''DONE'' = Some d" and "k < length is"
    and "\<forall>j<k. \<not> triggered (fpga s) (polls (fpga s) + j)"
    and "triggered (fpga s) (polls (fpga s) + k)"
  shows "for_loop is transmit_poll s =
           (s\<lparr>fpga := (fpga s)\<lparr>calls := calls (fpga s) @ wait_calls d 1 k @ poll_calls d,
                                  polls := polls (fpga s) + Suc k\<rparr>\<rparr>, Inr (Some PyTrue))"
  using assms
proof (induction "is" arbitrary: s k)
  case Nil
  then show ?case by simp
next
  case (Cons i "is")
  show ?case
  proof (cases k)
    case 0
    with Cons.prems show ?thesis
      by (simp add: and_then_apply transmit_poll_run run_ret wait_calls_def)
  next
    case (Suc k')
    let ?s1 = "s\<lparr>fpga := (fpga s)\<lparr>calls := calls (fpga s) @ poll_calls d @ [Sleep_ms 1],
                                     polls := Suc (polls (fpga s))\<rparr>\<rparr>"
    from Cons.prems Suc have nt: "\<not> triggered (fpga s) (polls (fpga s))" by auto
    have step: "transmit_poll i s = (?s1, Inr None)"
      using Cons.prems(1) nt by (simp add: transmit_poll_run)
    have a: "\<forall>j<k'. \<not> triggered (fpga ?s1) (polls (fpga ?s1) + j)"
      using Cons.prems(3) Suc by auto
    have b: "triggered (fpga ?s1) (polls (fpga ?s1) + k')"
      using Cons.prems(4) Suc by simp
    have "for_loop is transmit_poll ?s1 =
            (?s1\<lparr>fpga := (fpga ?s1)\<lparr>calls := calls (fpga ?s1) @ wait_calls d 1 k' @ poll_calls d,
                                      polls := polls (fpga ?s1) + Suc k'\<rparr>\<rparr>, Inr (Some PyTrue))"
      using Cons.prems(1,2) Suc a b by (intro Cons.IH) simp_all
    with step Suc show ?thesis
      by (simp add: and_then_apply wait_calls_Suc)
  qed
qed

lemma transmit_wait_never:
  assumes "endpoints s ''DONE'' = Some d"
    and "\<forall>j<length is. \<not> triggered (fpga s) (polls (fpga s) + j)"
  shows "for_loop is transmit_poll s =
           (s\<lparr>fpga := (fpga s)\<lparr>calls := calls (fpga s) @ wait_calls d 1 (length is),
                                  polls := polls (fpga s) + length is\<rparr>\<rparr>, Inr None)"
  using assms
proof (induction "is" arbitrary: s)
  case Nil
  then show ?case by (simp add: run_ret wait_calls_def)
next
  case (Cons i "is")
  let ?s1 = "s\<lparr>fpga := (fpga s)\<lparr>calls := calls (fpga s) @ poll_calls d @ [Sleep_ms 1],
                                   polls := Suc (polls (fpga s))\<rparr>\<rparr>"
  from Cons.prems have nt: "\<not> triggered (fpga s) (polls (fpga s))" by auto
  have step: "transmit_poll i s = (?s1, Inr None)"
    using Cons.prems(1) nt by (simp add: transmit_poll_run)
  have a: "\<forall>j<length is. \<not> triggered (fpga ?s1) (polls (fpga ?s1) + j)"
    using Cons.prems(2) by auto
  have "for_loop is transmit_poll ?s1 =
          (?s1\<lparr>fpga := (fpga ?s1)\<lparr>calls := calls (fpga ?s1) @ wait_calls d 1 (length is),
                                    polls := polls (fpga ?s1) + length is\<rparr>\<rparr>, Inr None)"
    using Cons.prems(1) a by (intro Cons.IH) simp_all
  with step show ?case
    by (simp add: and_then_apply wait_calls_Suc)
qed

lemma i2c_transmit_sends:
  assumes buf: "m_pBuf (i2c s) = map Some bs" "3 < length bs"
    and n: "m_nDataStart (i2c s) \<le> int (length bs)"
    and dl: "0 \<le> dl" "nat dl \<le> length data"
    and eps: "endpoints s ''MEMSTART'' = Some ms" "endpoints s ''IN'' = Some e"
      "endpoints s ''MEMWRITE'' = Some w" "endpoints s ''START'' = Some st"
  shows "i2c_transmit data dl s =
           and_then (for_loop (py_range I2C_MAX_TIMEOUT_MS) transmit_poll)
             (\<lambda>r. case r of
                Some v \<Rightarrow> ret v
              | None \<Rightarrow> seq (emit (Print ''Timeout error in transmit'')) (ret PyNone))
             (s\<lparr>i2c := (i2c s)\<lparr>m_pBuf := map Some (sent bs dl data)\<rparr>,
                fpga := (fpga s)\<lparr>calls := calls (fpga s) @
                  ActivateTriggerIn (address ms) (bit_index_low ms) #
                  concat (map (wire_in_calls e w)
                            (take (nat (dl + m_nDataStart (i2c s))) (sent bs dl data))) @
                  [ActivateTriggerIn (address st) (bit_index_low st)]\<rparr>\<rparr>)"
proof -
  let ?k = "nat (dl + m_nDataStart (i2c s))"
  let ?s1 = "s\<lparr>i2c := (i2c s)\<lparr>m_pBuf := map Some (bs[3 := dl])\<rparr>\<rparr>"
  let ?s2 = "s\<lparr>i2c := (i2c s)\<lparr>m_pBuf := map Some (sent bs dl data)\<rparr>\<rparr>"
  let ?s3 = "?s2\<lparr>fpga := (fpga s)\<lparr>calls := calls (fpga s) @
                  [ActivateTriggerIn (address ms) (bit_index_low ms)]\<rparr>\<rparr>"
  let ?s4 = "?s3\<lparr>fpga := (fpga ?s3)\<lparr>calls := calls (fpga ?s3) @
                  concat (map (\<lambda>i. wire_in_calls e w (sent bs dl data ! i)) [0..<?k])\<rparr>\<rparr>"
  have k: "?k \<le> length (sent bs dl data)"
    using n dl by (simp add: sent_def)
  have 1: "buf_set 3 (Some dl) s = (?s1, Inr ())"
    using buf by (simp add: buf_set_apply map_update)
  have 2: "for_each (py_range dl) (\<lambda>i. and_then (item data i) (\<lambda>d. buf_append (Some d))) ?s1
             = (?s2, Inr ())"
    using dl by (simp add: append_loop py_range_def map_nth_upt_take sent_def)
  have 3: "pulse ''MEMSTART'' ?s2 = (?s3, Inr ())"
    using eps by (simp add: pulse_apply)
  have 4: "for_each (py_range (dl + m_nDataStart (i2c s))) wire_in ?s3 = (?s4, Inr ())"
    unfolding py_range_def
    using eps k by (intro wire_in_loop) simp_all
  have 5: "concat (map (\<lambda>i. wire_in_calls e w (sent bs dl data ! i)) [0..<?k])
             = concat (map (wire_in_calls e w) (take ?k (sent bs dl data)))"
    using k by (simp add: map_nth_upt_take)
  show ?thesis
    unfolding i2c_transmit_def
    using eps
    by (simp add: seq_apply 1 2 3 and_then_apply [of get_m_nDataStart] get_m_nDataStart_apply 4 5
          pulse_apply)
qed

lemma i2c_transmit_done:
  assumes buf: "m_pBuf (i2c s) = map Some bs" "3 < length bs"
    and n: "m_nDataStart (i2c s) \<le> int (length bs)"
    and dl: "0 \<le> dl" "nat dl \<le> length data"
    and eps: "endpoints s ''MEMSTART'' = Some ms" "endpoints s ''IN'' = Some e"
      "endpoints s ''MEMWRITE'' = Some w" "endpoints s ''START'' = Some st"
      "endpoints s ''DONE'' = Some d"
    and k: "k < 50" "\<forall>j<k. \<not> triggered (fpga s) (polls (fpga s) + j)"
      "triggered (fpga s) (polls (fpga s) + k)"
  shows "i2c_transmit data dl s =
           (s\<lparr>i2c := (i2c s)\<lparr>m_pBuf := map Some (sent bs dl data)\<rparr>,
              fpga := (fpga s)\<lparr>calls := calls (fpga s) @
                  transfer_calls ms e w st
                    (take (nat (dl + m_nDataStart (i2c s))) (sent bs dl data)) @
                  wait_calls d 1 k @ poll_calls d,
                polls := polls (fpga s) + Suc k\<rparr>\<rparr>,
            Inr PyTrue)"
proof -
  let ?s3 = "s\<lparr>i2c := (i2c s)\<lparr>m_pBuf := map Some (sent bs dl data)\<rparr>,
                fpga := (fpga s)\<lparr>calls := calls (fpga s) @
                  ActivateTriggerIn (address ms) (bit_index_low ms) #
                  concat (map (wire_in_calls e w)
                            (take (nat (dl + m_nDataStart (i2c s))) (sent bs dl data))) @
                  [ActivateTriggerIn (address st) (bit_index_low st)]\<rparr>\<rparr>"
  have "for_loop (py_range I2C_MAX_TIMEOUT_MS) transmit_poll ?s3 =
          (?s3\<lparr>fpga := (fpga ?s3)\<lparr>calls := calls (fpga ?s3) @ wait_calls d 1 k @ poll_calls d,
                                    polls := polls (fpga ?s3) + Suc k\<rparr>\<rparr>, Inr (Some PyTrue))"
    using eps k by (intro transmit_wait_done) (simp_all add: py_range_def I2C_MAX_TIMEOUT_MS_def)
  then show ?thesis
    by (simp add: i2c_transmit_sends [OF buf n dl eps(1-4)] and_then_apply run_ret
          transfer_calls_def)
qed

lemma i2c_transmit_timeout:
  assumes buf: "m_pBuf (i2c s) = map Some bs" "3 < length bs"
    and n: "m_nDataStart (i2c s) \<le> int (length bs)"
    and dl: "0 \<le> dl" "nat dl \<le> length data"
    and eps: "endpoints s ''MEMSTART'' = Some ms" "endpoints s ''IN'' = Some e"
      "endpoints s ''MEMWRITE'' = Some w" "endpoints s ''START'' = Some st"
      "endpoints s ''DONE'' = Some d"
    and never: "\<forall>j<50. \<not> triggered (fpga s) (polls (fpga s) + j)"
  shows "i2c_transmit data dl s =
           (s\<lparr>i2c := (i2c s)\<lparr>m_pBuf := map Some (sent bs dl data)\<rparr>,
              fpga := (fpga s)\<lparr>calls := calls (fpga s) @
                  transfer_calls ms e w st
                    (take (nat (dl + m_nDataStart (i2c s))) (sent bs dl data)) @
                  wait_calls d 1 50 @ [Print ''Timeout error in transmit''],
                polls := polls (fpga s) + 50\<rparr>\<rparr>,
            Inr PyNone)"
proof -
  let ?s3 = "s\<lparr>i2c := (i2c s)\<lparr>m_pBuf := map Some (sent bs dl data)\<rparr>,
                fpga := (fpga s)\<lparr>calls := calls (fpga s) @
                  ActivateTriggerIn (address ms) (bit_index_low ms) #
                  concat (map (wire_in_calls e w)
                            (take (nat (dl + m_nDataStart (i2c s))) (sent bs dl data))) @
                  [ActivateTriggerIn (address st) (bit_index_low st)]\<rparr>\<rparr>"
  have len: "length (py_range I2C_MAX_TIMEOUT_MS) = 50"
    by (simp add: py_range_def I2C_MAX_TIMEOUT_MS_def)
  have "for_loop (py_range I2C_MAX_TIMEOUT_MS) transmit_poll ?s3 =
          (?s3\<lparr>fpga := (fpga ?s3)\<lparr>calls := calls (fpga ?s3) @
                       wait_calls d 1 (length (py_range I2C_MAX_TIMEOUT_MS)),
                     polls := polls (fpga ?s3) + length (py_range I2C_MAX_TIMEOUT_MS)\<rparr>\<rparr>, Inr None)"
    using eps never by (intro transmit_wait_never) (simp_all add: len)
  then show ?thesis
    by (simp add: i2c_transmit_sends [OF buf n dl eps(1-4)] and_then_apply seq_apply emit_apply
          run_ret transfer_calls_def len)
qed






text \<open>One round of the wait in \<open>i2c_receive\<close> that finds \<open>DONE\<close> not set.\<close>

lemma receive_poll_idle:
  assumes "endpoints s ''DONE'' = Some d" and "\<not> triggered (fpga s) (polls (fpga s))"
  shows "receive_poll dl dt ro i s =
           (s\<lparr>fpga := (fpga s)\<lparr>calls := calls (fpga s) @ poll_calls d @ [Sleep_ms 10],
                                  polls := Suc (polls (fpga s))\<rparr>\<rparr>, Inr None)"
  using assms by (simp add: receive_poll_def run_simps is_triggered_apply poll_calls_def)

text \<open>The rounds before \<open>DONE\<close> is set.\<close>

lemma receive_wait_skips:
  assumes "endpoints s ''DONE'' = Some d" and "k \<le> length is"
    and "\<forall>j<k. \<not> triggered (fpga s) (polls (fpga s) + j)"
  shows "for_loop is (receive_poll dl dt ro) s =
           for_loop (drop k is) (receive_poll dl dt ro)
             (s\<lparr>fpga := (fpga s)\<lparr>calls := calls (fpga s) @ wait_calls d 10 k,
                                    polls := polls (fpga s) + k\<rparr>\<rparr>)"
  using assms
proof (induction k arbitrary: s "is")
  case 0
  then show ?case by (simp add: wait_calls_def)
next
  case (Suc k)
  then obtain i is' where eq: "is = i # is'" by (cases "is") auto
  let ?s1 = "s\<lparr>fpga := (fpga s)\<lparr>calls := calls (fpga s) @ poll_calls d @ [Sleep_ms 10],
                                   polls := Suc (polls (fpga s))\<rparr>\<rparr>"
  from Suc.prems have nt: "\<not> triggered (fpga s) (polls (fpga s))" by auto
  have step: "receive_poll dl dt ro i s = (?s1, Inr None)"
    using Suc.prems(1) nt by (rule receive_poll_idle)
  have a: "\<forall>j<k. \<not> triggered (fpga ?s1) (polls (fpga ?s1) + j)"
    using Suc.prems(3) by auto
  have "for_loop is' (receive_poll dl dt ro) ?s1 =
          for_loop (drop k is') (receive_poll dl dt ro)
            (?s1\<lparr>fpga := (fpga ?s1)\<lparr>calls := calls (fpga ?s1) @ wait_calls d 10 k,
                                      polls := polls (fpga ?s1) + k\<rparr>\<rparr>)"
    using Suc.prems(1,2) a eq by (intro Suc.IH) simp_all
  with step eq show ?case
    by (simp add: and_then_apply wait_calls_Suc)
qed


lemma i2c_receive_sends:
  assumes buf: "m_pBuf (i2c s) = map Some bs" "3 < length bs"
    and n: "m_nDataStart (i2c s) \<le> int (length bs)"
    and eps: "endpoints s ''MEMSTART'' = Some ms" "endpoints s ''IN'' = Some e"
      "endpoints s ''MEMWRITE'' = Some w" "endpoints s ''START'' = Some st"
    and pipe: "lower dt = ''pipe'' \<and> rp \<longrightarrow>
                 endpoints s ''FIFO_RESET'' = Some fr \<and> endpoints s ''PIPE_OUT'' \<noteq> None"
  shows "i2c_receive dl dt rp ro s =
           and_then (for_loop (py_range (I2C_MAX_TIMEOUT_MS div 10)) (receive_poll dl dt ro))
             (\<lambda>r. case r of
                Some v \<Rightarrow> ret v
              | None \<Rightarrow> seq (emit (Print ''Timeout Exception in Rx'')) (ret PyNone))
             (s\<lparr>i2c := (i2c s)\<lparr>m_pBuf := map Some (received bs dl)\<rparr>,
                fpga := (fpga s)\<lparr>calls := calls (fpga s) @
                  (if lower dt = ''pipe'' \<and> rp
                   then [ActivateTriggerIn (address fr) (bit_index_low fr)] else []) @
                  transfer_calls ms e w st
                    (take (nat (m_nDataStart (i2c s))) (received bs dl))\<rparr>\<rparr>)"
proof -
  let ?k = "nat (m_nDataStart (i2c s))"
  define pre where "pre = (if lower dt = ''pipe'' \<and> rp
              then [ActivateTriggerIn (address fr) (bit_index_low fr)] else [])"
  let ?s0 = "s\<lparr>fpga := (fpga s)\<lparr>calls := calls (fpga s) @ pre\<rparr>\<rparr>"
  let ?s2 = "?s0\<lparr>i2c := (i2c s)\<lparr>m_pBuf := map Some (received bs dl)\<rparr>\<rparr>"
  let ?s3 = "?s2\<lparr>fpga := (fpga ?s2)\<lparr>calls := calls (fpga ?s2) @
                  [ActivateTriggerIn (address ms) (bit_index_low ms)]\<rparr>\<rparr>"
  let ?s4 = "?s3\<lparr>fpga := (fpga ?s3)\<lparr>calls := calls (fpga ?s3) @
                  concat (map (\<lambda>i. wire_in_calls e w (received bs dl ! i)) [0..<?k])\<rparr>\<rparr>"
  have k: "?k \<le> length (received bs dl)"
    using n by (simp add: received_def)
  have 0: "(if lower dt = ''pipe'' \<and> rp then seq require_pipe_endpoints (pulse ''FIFO_RESET'')
            else ret ()) s = (?s0, Inr ())"
    using pipe by (auto simp: seq_apply require_pipe_endpoints_def pulse_apply run_ret pre_def)
  have 1: "and_then (buf_get 0) (\<lambda>cell. and_then (as_int cell) (\<lambda>b. buf_set 0 (Some (b OR 128)))) ?s0
           = (?s0\<lparr>i2c := (i2c s)\<lparr>m_pBuf := map Some (bs[0 := bs ! 0 OR 128])\<rparr>\<rparr>, Inr ())"
    using buf by (auto simp: run_simps as_int_def map_update)
  have 2: "buf_set 3 (Some dl) (?s0\<lparr>i2c := (i2c s)\<lparr>m_pBuf := map Some (bs[0 := bs ! 0 OR 128])\<rparr>\<rparr>)
           = (?s2, Inr ())"
    using buf by (simp add: buf_set_apply map_update received_def)
  have 3: "pulse ''MEMSTART'' ?s2 = (?s3, Inr ())"
    using eps by (simp add: pulse_apply)
  have 4: "for_each (py_range (m_nDataStart (i2c s))) wire_in ?s3 = (?s4, Inr ())"
    unfolding py_range_def
    using eps k by (intro wire_in_loop) simp_all
  have 5: "concat (map (\<lambda>i. wire_in_calls e w (received bs dl ! i)) [0..<?k])
             = concat (map (wire_in_calls e w) (take ?k (received bs dl)))"
    using k by (simp add: map_nth_upt_take)
  have "i2c_receive dl dt rp ro s =
           and_then (for_loop (py_range (I2C_MAX_TIMEOUT_MS div 10)) (receive_poll dl dt ro))
             (\<lambda>r. case r of
                Some v \<Rightarrow> ret v
              | None \<Rightarrow> seq (emit (Print ''Timeout Exception in Rx'')) (ret PyNone))
             (s\<lparr>i2c := (i2c s)\<lparr>m_pBuf := map Some (received bs dl)\<rparr>,
                fpga := (fpga s)\<lparr>calls := calls (fpga s) @ pre @
                  transfer_calls ms e w st
                    (take (nat (m_nDataStart (i2c s))) (received bs dl))\<rparr>\<rparr>)"
    unfolding i2c_receive_def
    using eps
    by (simp add: seq_apply 0 1 [simplified] 2 [simplified] 3 [simplified]
          and_then_apply [of get_m_nDataStart] get_m_nDataStart_apply
          4 [simplified] 5 pulse_apply transfer_calls_def)
  then show ?thesis
    unfolding pre_def .
qed

lemma receive_rounds: "length (py_range (I2C_MAX_TIMEOUT_MS div 10)) = 5"
  by (simp add: py_range_def I2C_MAX_TIMEOUT_MS_def)


lemma i2c_receive_timeout:
  assumes buf: "m_pBuf (i2c s) = map Some bs" "3 < length bs"
    and n: "m_nDataStart (i2c s) \<le> int (length bs)"
    and eps: "endpoints s ''MEMSTART'' = Some ms" "endpoints s ''IN'' = Some e"
      "endpoints s ''MEMWRITE'' = Some w" "endpoints s ''START'' = Some st"
      "endpoints s ''DONE'' = Some d"
    and pipe: "lower dt = ''pipe'' \<and> rp \<longrightarrow>
                 endpoints s ''FIFO_RESET'' = Some fr \<and> endpoints s ''PIPE_OUT'' \<noteq> None"
    and never: "\<forall>j<5. \<not> triggered (fpga s) (polls (fpga s) + j)"
  shows "i2c_receive dl dt rp ro s =
           (s\<lparr>i2c := (i2c s)\<lparr>m_pBuf := map Some (received bs dl)\<rparr>,
              fpga := (fpga s)\<lparr>calls := calls (fpga s) @
                  (if lower dt = ''pipe'' \<and> rp
                   then [ActivateTriggerIn (address fr) (bit_index_low fr)] else []) @
                  transfer_calls ms e w st
                    (take (nat (m_nDataStart (i2c s))) (received bs dl)) @
                  wait_calls d 10 5 @ [Print ''Timeout Exception in Rx''],
                polls := polls (fpga s) + 5\<rparr>\<rparr>,
            Inr PyNone)"
proof -
  define pre where "pre = (if lower dt = ''pipe'' \<and> rp
              then [ActivateTriggerIn (address fr) (bit_index_low fr)] else [])"
  let ?s3 = "s\<lparr>i2c := (i2c s)\<lparr>m_pBuf := map Some (received bs dl)\<rparr>,
                fpga := (fpga s)\<lparr>calls := calls (fpga s) @ pre @
                  transfer_calls ms e w st
                    (take (nat (m_nDataStart (i2c s))) (received bs dl))\<rparr>\<rparr>"
  let ?s4 = "?s3\<lparr>fpga := (fpga ?s3)\<lparr>calls := calls (fpga ?s3) @ wait_calls d 10 5,
                                     polls := polls (fpga ?s3) + 5\<rparr>\<rparr>"
  let ?loop = "py_range (I2C_MAX_TIMEOUT_MS div 10)"
  have sends: "i2c_receive dl dt rp ro s =
           and_then (for_loop ?loop (receive_poll dl dt ro))
             (\<lambda>r. case r of
                Some v \<Rightarrow> ret v
              | None \<Rightarrow> seq (emit (Print ''Timeout Exception in Rx'')) (ret PyNone)) ?s3"
    unfolding pre_def by (rule i2c_receive_sends [OF buf n eps(1-4) pipe])
  have skip: "for_loop ?loop (receive_poll dl dt ro) ?s3 =
                for_loop (drop 5 ?loop) (receive_poll dl dt ro) ?s4"
    using eps never by (intro receive_wait_skips) (simp_all add: receive_rounds)
  have "i2c_receive dl dt rp ro s =
           (s\<lparr>i2c := (i2c s)\<lparr>m_pBuf := map Some (received bs dl)\<rparr>,
              fpga := (fpga s)\<lparr>calls := calls (fpga s) @ pre @
                  transfer_calls ms e w st
                    (take (nat (m_nDataStart (i2c s))) (received bs dl)) @
                  wait_calls d 10 5 @ [Print ''Timeout Exception in Rx''],
                polls := polls (fpga s) + 5\<rparr>\<rparr>,
            Inr PyNone)"
    unfolding sends
    by (simp add: and_then_apply [of "for_loop ?loop (receive_poll dl dt ro)"] skip receive_rounds
          run_ret seq_apply emit_apply)
  then show ?thesis
    unfolding pre_def .
qed



text \<open>Without readout, \<open>i2c_receive\<close> returns \<open>None\<close> whenever it returns.\<close>

lemma receive_poll_no_data:
  "receive_poll dl dt False i s = (s', Inr (Some v)) \<Longrightarrow> v = PyNone"
  by (auto simp: receive_poll_def seq_apply and_then_apply run_ret
           split: prod.splits sum.splits option.splits if_splits)

lemma receive_wait_no_data:
  "for_loop is (receive_poll dl dt False) s = (s', Inr (Some v)) \<Longrightarrow> v = PyNone"
proof (induction "is" arbitrary: s)
  case Nil
  then show ?case by (simp add: run_ret)
next
  case (Cons i "is")
  then show ?case
    by (auto simp: and_then_apply run_ret dest: receive_poll_no_data
             split: prod.splits sum.splits option.splits)
qed

lemma i2c_receive_no_data:
  "i2c_receive dl dt rp False s = (s', Inr v) \<Longrightarrow> v = PyNone"
  unfolding i2c_receive_def
  by (auto simp: seq_apply and_then_apply run_ret dest: receive_wait_no_data
           split: prod.splits sum.splits option.splits)

lemma i2c_receive_then_None:
  "and_then (i2c_receive dl dt rp False) (\<lambda>_. ret PyNone) s = i2c_receive dl dt rp False s"
proof (cases "i2c_receive dl dt rp False s")
  case (Pair s' r)
  then show ?thesis
    by (cases r) (auto simp: and_then_apply run_ret dest: i2c_receive_no_data)
qed

lemma and_then_ret: "and_then m (\<lambda>x. ret x) s = m s"
  by (auto simp: and_then_apply run_ret split: prod.splits sum.splits)

section \<open>What the statements preserve\<close>

lemma preservesD: "preserves P m \<Longrightarrow> P s \<Longrightarrow> m s = (s', r) \<Longrightarrow> P s'"
  by (auto simp: preserves_def)

lemma preserves_ret: "preserves P (ret x)"
  by (simp add: preserves_def ret_def)

lemma preserves_raise: "preserves P (raise e)"
  by (simp add: preserves_def raise_def)

lemma preserves_and_then:
  "preserves P m \<Longrightarrow> (\<And>x. preserves P (f x)) \<Longrightarrow> preserves P (and_then m f)"
proof (unfold preserves_def, intro allI impI)
  fix s s' r
  assume m: "\<forall>s s' r. P s \<longrightarrow> m s = (s', r) \<longrightarrow> P s'"
    and f: "\<And>x. \<forall>s s' r. P s \<longrightarrow> f x s = (s', r) \<longrightarrow> P s'"
    and P: "P s" and run: "and_then m f s = (s', r)"
  obtain s1 r1 where 1: "m s = (s1, r1)" by (cases "m s")
  with m P have P1: "P s1" by blast
  show "P s'"
  proof (cases r1)
    case (Inl e)
    with 1 run have "s' = s1" by (simp add: and_then_apply)
    with P1 show ?thesis by simp
  next
    case (Inr x)
    with 1 run have "f x s1 = (s', r)" by (simp add: and_then_apply)
    with f P1 show ?thesis by blast
  qed
qed

lemma preserves_seq: "preserves P m \<Longrightarrow> preserves P k \<Longrightarrow> preserves P (seq m k)"
  by (simp add: seq_def preserves_and_then)

lemma preserves_if:
  "(c \<Longrightarrow> preserves P a) \<Longrightarrow> (\<not> c \<Longrightarrow> preserves P b) \<Longrightarrow> preserves P (if c then a else b)"
  by simp

lemma preserves_case_option:
  "preserves P a \<Longrightarrow> (\<And>v. preserves P (f v)) \<Longrightarrow>
   preserves P (case r of None \<Rightarrow> a | Some v \<Rightarrow> f v)"
  by (cases r) simp_all

lemma preserves_for_each: "(\<And>i. preserves P (body i)) \<Longrightarrow> preserves P (for_each is body)"
  by (induction "is") (simp_all add: preserves_ret preserves_seq)

lemma preserves_for_loop: "(\<And>i. preserves P (body i)) \<Longrightarrow> preserves P (for_loop is body)"
  by (induction "is") (simp_all add: preserves_ret preserves_and_then preserves_case_option)

lemma preserves_for_acc:
  "(\<And>i a. preserves P (body i a)) \<Longrightarrow> preserves P (for_acc is body a)"
  by (induction "is" arbitrary: a) (simp_all add: preserves_ret preserves_and_then)

lemmas preserves_intros = preserves_ret preserves_raise preserves_and_then preserves_seq
  preserves_if preserves_case_option preserves_for_each preserves_for_loop preserves_for_acc

text \<open>Statements that leave the dictionary alone preserve what depends on it only.\<close>

lemma keeps_i2c:
  "(\<And>s s' r. m s = (s', r) \<Longrightarrow> i2c s' = i2c s) \<Longrightarrow> preserves (\<lambda>s. Q (i2c s)) m"
  unfolding preserves_def by metis

lemma i2c_kept:
  "preserves (\<lambda>s. Q (i2c s)) (emit e)"
  "preserves (\<lambda>s. Q (i2c s)) (ep name)"
  "preserves (\<lambda>s. Q (i2c s)) (pulse name)"
  "preserves (\<lambda>s. Q (i2c s)) (is_triggered addr bits)"
  "preserves (\<lambda>s. Q (i2c s)) (get_wire_out_value addr)"
  "preserves (\<lambda>s. Q (i2c s)) (read_pipe_out addr len)"
  "preserves (\<lambda>s. Q (i2c s)) (buf_get i)"
  "preserves (\<lambda>s. Q (i2c s)) (as_int c)"
  "preserves (\<lambda>s. Q (i2c s)) (item xs i)"
  "preserves (\<lambda>s. Q (i2c s)) get_m_nDataStart"
  "preserves (\<lambda>s. Q (i2c s)) require_pipe_endpoints"
  "preserves (\<lambda>s. Q (i2c s)) (activate_trigger_in addr bit_index)"
  by (rule keeps_i2c, auto simp: emit_def ep_def pulse_apply is_triggered_def
        get_wire_out_value_def read_pipe_out_def buf_get_def as_int_def item_def ret_def
        raise_def get_m_nDataStart_def require_pipe_endpoints_def activate_trigger_in_def
        split: option.splits if_splits)+

lemma i2c_kept_compound:
  "preserves (\<lambda>s. Q (i2c s)) (wire_in i)"
  "preserves (\<lambda>s. Q (i2c s)) (transmit_poll i)"
  "preserves (\<lambda>s. Q (i2c s)) (wire_read i data)"
  "preserves (\<lambda>s. Q (i2c s)) (wire_readout dl)"
  unfolding wire_in_def transmit_poll_def wire_read_def wire_readout_def
  by (intro preserves_intros i2c_kept)+

lemma i2c_kept_receive_poll: "preserves (\<lambda>s. Q (i2c s)) (receive_poll dl dt ro i)"
  unfolding receive_poll_def
  by (intro preserves_intros i2c_kept i2c_kept_compound)

lemmas flag_kept =
  i2c_kept [where Q = "\<lambda>d. case m_pBuf d of Some b # _ \<Rightarrow> bit b 7 | _ \<Rightarrow> False",
            folded read_flag_def]
  i2c_kept_compound [where Q = "\<lambda>d. case m_pBuf d of Some b # _ \<Rightarrow> bit b 7 | _ \<Rightarrow> False",
            folded read_flag_def]
  i2c_kept_receive_poll [where Q = "\<lambda>d. case m_pBuf d of Some b # _ \<Rightarrow> bit b 7 | _ \<Rightarrow> False",
            folded read_flag_def]

lemma read_flag_iff: "read_flag s \<longleftrightarrow> (\<exists>b tl. m_pBuf (i2c s) = Some b # tl \<and> bit b 7)"
  by (auto simp: read_flag_def split: list.splits option.splits)

lemma flag_kept_append: "preserves read_flag (buf_append v)"
  unfolding preserves_def read_flag_iff buf_append_def by auto

lemma flag_kept_set: "0 < i \<Longrightarrow> preserves read_flag (buf_set i v)"
proof (cases i)
  case 0
  then show "0 < i \<Longrightarrow> ?thesis" by simp
next
  case (Suc j)
  show ?thesis
    unfolding preserves_def read_flag_iff buf_set_def Suc by (auto split: if_splits)
qed

lemma flag_set: "bit b 7 \<Longrightarrow> preserves read_flag (buf_set 0 (Some b))"
  unfolding preserves_def read_flag_iff buf_set_def by (auto split: if_splits)

lemma bit_128: "bit (128 :: int) 7"
proof -
  have "(128 :: int) = 2 ^ 7" by simp
  then show ?thesis by (simp only: bit_exp_iff) simp
qed

lemma bit_7_or_128: "bit (b OR 128 :: int) 7"
  by (simp only: bit_or_iff bit_128 simp_thms)

lemma i2c_transmit_keeps_flag: "preserves read_flag (i2c_transmit data n)"
  unfolding i2c_transmit_def
  by (intro preserves_intros flag_kept flag_kept_append flag_kept_set) simp

lemma set_read_flag_keeps_flag:
  "preserves read_flag (and_then (as_int cell) (\<lambda>b. buf_set 0 (Some (b OR 128))))"
  by (intro preserves_intros flag_kept flag_set bit_7_or_128)

lemma i2c_receive_keeps_flag: "preserves read_flag (i2c_receive dl dt rp ro)"
  unfolding i2c_receive_def
  by (intro preserves_intros flag_kept flag_kept_set set_read_flag_keeps_flag) simp

lemma reset_device_keeps_flag: "preserves read_flag reset_device"
  unfolding reset_device_def
  by (intro preserves_intros flag_kept)

lemma invoke_keeps_flag: "read_flag s \<Longrightarrow> read_flag (invoke m s)"
proof (cases m)
  case (Transmit data n)
  assume "read_flag s"
  then show ?thesis
    using preservesD [OF i2c_transmit_keeps_flag, of s data n] Transmit
    by (cases "i2c_transmit data n s") simp
next
  case (Receive dl dt rp ro)
  assume "read_flag s"
  then show ?thesis
    using preservesD [OF i2c_receive_keeps_flag, of s dl dt rp ro] Receive
    by (cases "i2c_receive dl dt rp ro s") simp
next
  case Reset_device
  assume "read_flag s"
  then show ?thesis
    using preservesD [OF reset_device_keeps_flag, of s] Reset_device
    by (cases "reset_device s") simp
qed

lemma invokes_keep_flag: "read_flag s \<Longrightarrow> read_flag (fold invoke ms s)"
  by (induction ms arbitrary: s) (simp_all add: invoke_keeps_flag)

lemma seq_InrE:
  assumes "seq m k s = (s', Inr r)"
  obtains s1 where "m s = (s1, Inr ())" and "k s1 = (s', Inr r)"
  using assms by (auto simp: seq_apply split: prod.splits sum.splits)

lemma and_then_InrE:
  assumes "and_then m f s = (s', Inr r)"
  obtains s1 x where "m s = (s1, Inr x)" and "f x s1 = (s', Inr r)"
  using assms by (auto simp: and_then_apply split: prod.splits sum.splits)

lemma seq_establishes:
  assumes "seq m k s = (s', Inr r)" and "\<And>s1. m s = (s1, Inr ()) \<Longrightarrow> P s1"
    and "preserves P k"
  shows "P s'"
proof -
  from assms(1) obtain s1 where 1: "m s = (s1, Inr ())" and 2: "k s1 = (s', Inr r)"
    by (rule seq_InrE)
  from assms(3) assms(2) [OF 1] 2 show ?thesis
    by (rule preservesD)
qed

lemma sets_read_flag:
  assumes "and_then (buf_get 0) (\<lambda>cell. and_then (as_int cell)
             (\<lambda>b. buf_set 0 (Some (b OR 128)))) s = (s', Inr u)"
  shows "read_flag s'"
proof (cases "m_pBuf (i2c s)")
  case Nil
  with assms show ?thesis by (simp add: run_simps)
next
  case (Cons c cs)
  with assms show ?thesis
    by (cases c) (auto simp: run_simps as_int_def read_flag_iff bit_7_or_128)
qed

lemma i2c_receive_sets_flag:
  "i2c_receive dl dt rp ro s = (s', Inr r) \<Longrightarrow> read_flag s'"
  unfolding i2c_receive_def
  apply (erule seq_InrE)
  apply (erule seq_establishes)
   apply (erule sets_read_flag)
  apply (intro preserves_intros flag_kept flag_kept_set)
  apply simp
  done

text \<open>Statements only add calls to the log.\<close>

lemma extends_calls:
  assumes "\<And>s s' r. m s = (s', r) \<Longrightarrow> \<exists>ev. calls (fpga s') = calls (fpga s) @ ev"
  shows "preserves (\<lambda>s. \<exists>rest. calls (fpga s) = pfx @ rest) m"
proof (unfold preserves_def, intro allI impI)
  fix s s' r
  assume "\<exists>rest. calls (fpga s) = pfx @ rest" and "m s = (s', r)"
  then obtain rest ev where "calls (fpga s) = pfx @ rest" and "calls (fpga s') = calls (fpga s) @ ev"
    using assms by blast
  then have "calls (fpga s') = pfx @ (rest @ ev)" by simp
  then show "\<exists>rest. calls (fpga s') = pfx @ rest" ..
qed

lemma calls_extended:
  "preserves (\<lambda>s. \<exists>rest. calls (fpga s) = pfx @ rest) (emit e)"
  "preserves (\<lambda>s. \<exists>rest. calls (fpga s) = pfx @ rest) (ep name)"
  "preserves (\<lambda>s. \<exists>rest. calls (fpga s) = pfx @ rest) (pulse name)"
  "preserves (\<lambda>s. \<exists>rest. calls (fpga s) = pfx @ rest) (is_triggered addr bits)"
  "preserves (\<lambda>s. \<exists>rest. calls (fpga s) = pfx @ rest) (buf_get i)"
  "preserves (\<lambda>s. \<exists>rest. calls (fpga s) = pfx @ rest) (as_int c)"
  by (rule extends_calls, auto simp: emit_def ep_def pulse_apply is_triggered_def
        buf_get_def as_int_def ret_def raise_def split: option.splits if_splits)+

lemma calls_extended_compound:
  "preserves (\<lambda>s. \<exists>rest. calls (fpga s) = pfx @ rest) (wire_in i)"
  "preserves (\<lambda>s. \<exists>rest. calls (fpga s) = pfx @ rest) (transmit_poll i)"
  unfolding wire_in_def transmit_poll_def
  by (intro preserves_intros calls_extended)+

text \<open>The payload loop of \<open>i2c_transmit\<close> leaves all but the tail of the buffer.\<close>

lemma append_loop_keeps:
  "preserves (\<lambda>s0. fpga s0 = F \<and> endpoints s0 = E \<and> m_nDataStart (i2c s0) = N
                    \<and> (\<exists>tl. m_pBuf (i2c s0) = c # tl))
     (for_each is (\<lambda>i. and_then (item data i) (\<lambda>d. buf_append (Some d))))"
proof (intro preserves_intros)
  fix i
  show "preserves (\<lambda>s0. fpga s0 = F \<and> endpoints s0 = E \<and> m_nDataStart (i2c s0) = N
                    \<and> (\<exists>tl. m_pBuf (i2c s0) = c # tl)) (item data i)"
    by (auto simp: preserves_def item_def ret_def raise_def split: if_splits)
next
  fix i x
  show "preserves (\<lambda>s0. fpga s0 = F \<and> endpoints s0 = E \<and> m_nDataStart (i2c s0) = N
                    \<and> (\<exists>tl. m_pBuf (i2c s0) = c # tl)) (buf_append (Some x))"
    by (auto simp: preserves_def buf_append_def)
qed

text \<open>The first byte that \<open>i2c_transmit\<close> transfers is cell 0 of the buffer.\<close>

lemma wire_in_first:
  assumes "wire_in 0 s = (s', Inr u)" and "m_pBuf (i2c s) = Some b # cs"
  obtains e ev where "endpoints s ''IN'' = Some e"
    and "calls (fpga s') = calls (fpga s) @
           SetWireInValue (address e) (push_bit (bit_index_low e) b)
             (push_bit (bit_index_low e) 255) # ev"
  using assms
  by (auto simp: wire_in_def run_simps as_int_def split: option.splits if_splits)

lemma transmit_steps:
  assumes flag: "read_flag s" and pos: "0 < n + m_nDataStart (i2c s)"
    and 1: "buf_set 3 (Some n) s = (s1, Inr ())"
    and 2: "for_each (py_range n) (\<lambda>i. and_then (item data i) (\<lambda>d. buf_append (Some d))) s1
              = (s2, Inr ())"
    and 3: "pulse ''MEMSTART'' s2 = (s3, Inr ())"
    and 4: "get_m_nDataStart s3 = (s3a, Inr N)"
    and 5: "for_each (py_range (n + N)) wire_in s3a = (s4, Inr ())"
  shows "\<exists>ms e b. endpoints s ''MEMSTART'' = Some ms \<and> endpoints s ''IN'' = Some e
           \<and> m_pBuf (i2c s) ! 0 = Some b \<and> bit b 7
           \<and> (\<exists>rest. calls (fpga s4) =
                 (calls (fpga s) @
                   [ActivateTriggerIn (address ms) (bit_index_low ms),
                    SetWireInValue (address e) (push_bit (bit_index_low e) b)
                      (push_bit (bit_index_low e) 255)]) @ rest)"
proof -
  from flag obtain b tl where buf: "m_pBuf (i2c s) = Some b # tl" and b: "bit b 7"
    by (auto simp: read_flag_iff)
  from 1 buf have s1: "fpga s1 = fpga s \<and> endpoints s1 = endpoints s
        \<and> m_nDataStart (i2c s1) = m_nDataStart (i2c s) \<and> (\<exists>tl. m_pBuf (i2c s1) = Some b # tl)"
    by (auto simp: buf_set_apply split: if_splits)
  from preservesD [OF append_loop_keeps s1 2]
  have s2: "fpga s2 = fpga s" "endpoints s2 = endpoints s"
    "m_nDataStart (i2c s2) = m_nDataStart (i2c s)" "\<exists>tl. m_pBuf (i2c s2) = Some b # tl"
    by simp_all
  from 3 s2 obtain ms where ms: "endpoints s ''MEMSTART'' = Some ms"
    and s3: "s3 = s2\<lparr>fpga := (fpga s2)\<lparr>calls := calls (fpga s2) @
                  [ActivateTriggerIn (address ms) (bit_index_low ms)]\<rparr>\<rparr>"
    by (auto simp: pulse_apply split: option.splits)
  from 4 have s3a: "s3a = s3" and N: "N = m_nDataStart (i2c s3)"
    by (auto simp: get_m_nDataStart_apply)
  from N s3 s2 pos have "0 < nat (n + N)" by simp
  then have rng: "py_range (n + N) = 0 # [Suc 0..<nat (n + N)]"
    by (simp add: py_range_def upt_conv_Cons)
  from 5 [unfolded rng for_each.simps] obtain s3b
    where first: "wire_in 0 s3a = (s3b, Inr ())"
      and others: "for_each [Suc 0..<nat (n + N)] wire_in s3b = (s4, Inr ())"
    by (rule seq_InrE)
  from s2(4) s3 s3a obtain tl' where buf3: "m_pBuf (i2c s3a) = Some b # tl'" by auto
  from first buf3 obtain e ev where e: "endpoints s3a ''IN'' = Some e"
    and c3b: "calls (fpga s3b) = calls (fpga s3a) @
           SetWireInValue (address e) (push_bit (bit_index_low e) b)
             (push_bit (bit_index_low e) 255) # ev"
    by (rule wire_in_first)
  let ?pfx = "calls (fpga s) @
                   [ActivateTriggerIn (address ms) (bit_index_low ms),
                    SetWireInValue (address e) (push_bit (bit_index_low e) b)
                      (push_bit (bit_index_low e) 255)]"
  from c3b s3 s3a s2 have "\<exists>rest. calls (fpga s3b) = ?pfx @ rest" by simp
  with preserves_for_each [OF calls_extended_compound(1)] have "\<exists>rest. calls (fpga s4) = ?pfx @ rest"
    using others by (rule preservesD)
  moreover from e s3 s3a s2 have "endpoints s ''IN'' = Some e" by simp
  moreover from buf have "m_pBuf (i2c s) ! 0 = Some b" by simp
  ultimately show ?thesis using ms b by blast
qed

lemma transmit_tail_extends:
  "preserves (\<lambda>s. \<exists>rest. calls (fpga s) = pfx @ rest)
     (seq (pulse ''START'')
        (and_then (for_loop (py_range I2C_MAX_TIMEOUT_MS) transmit_poll) (\<lambda>r.
           case r of
             Some v \<Rightarrow> ret v
           | None \<Rightarrow> seq (emit (Print ''Timeout error in transmit'')) (ret PyNone))))"
  by (intro preserves_intros calls_extended calls_extended_compound)

lemma i2c_transmit_streams_flag:
  "read_flag s \<Longrightarrow> 0 < n + m_nDataStart (i2c s) \<Longrightarrow> i2c_transmit data n s = (s', Inr v) \<Longrightarrow>
   \<exists>ms e b rest. endpoints s ''MEMSTART'' = Some ms \<and> endpoints s ''IN'' = Some e
           \<and> m_pBuf (i2c s) ! 0 = Some b \<and> bit b 7
           \<and> calls (fpga s') =
                 calls (fpga s) @
                   ActivateTriggerIn (address ms) (bit_index_low ms) #
                   SetWireInValue (address e) (push_bit (bit_index_low e) b)
                     (push_bit (bit_index_low e) 255) # rest"
  unfolding i2c_transmit_def
  apply (erule seq_InrE)
  apply (erule seq_InrE)
  apply (erule seq_InrE)
  apply (erule and_then_InrE)
  apply (erule seq_InrE)
  subgoal premises p for s1 s2 s3 s3a N s4
  proof -
    from transmit_steps [OF p(1-7)] obtain ms e b
      where eps: "endpoints s ''MEMSTART'' = Some ms" "endpoints s ''IN'' = Some e"
        and b: "m_pBuf (i2c s) ! 0 = Some b" "bit b 7"
        and pfx: "\<exists>rest. calls (fpga s4) =
                 (calls (fpga s) @
                   [ActivateTriggerIn (address ms) (bit_index_low ms),
                    SetWireInValue (address e) (push_bit (bit_index_low e) b)
                      (push_bit (bit_index_low e) 255)]) @ rest"
      by blast
    from transmit_tail_extends pfx p(8)
    have "\<exists>rest. calls (fpga s') =
                 (calls (fpga s) @
                   [ActivateTriggerIn (address ms) (bit_index_low ms),
                    SetWireInValue (address e) (push_bit (bit_index_low e) b)
                      (push_bit (bit_index_low e) 255)]) @ rest"
      by (rule preservesD)
    with eps b show ?thesis by auto
  qed
  done

section \<open>The claims\<close>

text \<open>
  C1. For a preamble length from 0 to 7 and a preamble of that many entries,
  \<open>i2c_configure\<close> leaves a buffer of exactly \<open>4 + preamble_length\<close> cells: the preamble
  length, \<open>starts\<close>, \<open>stops\<close>, 0, then the preamble entries in order; it sets
  \<open>m_nDataStart\<close> to \<open>4 + preamble_length\<close>; and it changes nothing else, so no call
  reaches the hardware.
\<close>

theorem C1_i2c_configure_buffer:
  assumes "0 \<le> preamble_length" and "preamble_length \<le> 7"
    and "length preamble = nat preamble_length"
  shows "i2c_configure preamble_length starts stops preamble s =
           (s\<lparr>i2c := \<lparr>m_pBuf = map Some [preamble_length, starts, stops, 0] @ preamble,
                       m_nDataStart = 4 + preamble_length\<rparr>\<rparr>, Inr PyNone)
         \<and> length (map Some [preamble_length, starts, stops, 0] @ preamble)
             = nat (4 + preamble_length)"
  using assms i2c_configure_run [of preamble_length preamble starts stops s]
  by simp

theorem C1_witness:
  "(0::int) \<le> 2 \<and> (2::int) \<le> 7 \<and> length [Some (160::int), Some 16] = nat 2
   \<and> i2c_configure 2 0 4 [Some 160, Some 16] (example_self (\<lambda>n. True)) =
           ((example_self (\<lambda>n. True))\<lparr>i2c := \<lparr>m_pBuf = map Some [2, 0, 4, 0] @ [Some 160, Some 16],
                       m_nDataStart = 4 + 2\<rparr>\<rparr>, Inr PyNone)"
  using C1_i2c_configure_buffer [of 2 "[Some 160, Some 16]" 0 4 "example_self (\<lambda>n. True)"]
  by simp

text \<open>
  C2. The claim asks that \<open>i2c_configure\<close> fail for a preamble longer than 7. The code
  prints a message and goes on: for a preamble of 8 entries it returns normally, with
  a buffer of 12 cells and \<open>m_nDataStart = 12\<close>.
\<close>

theorem C2_i2c_configure_too_long:
  "i2c_configure 8 0 0 (map Some [1, 2, 3, 4, 5, 6, 7, 8]) s =
     (s\<lparr>i2c := \<lparr>m_pBuf = map Some [8, 0, 0, 0, 1, 2, 3, 4, 5, 6, 7, 8], m_nDataStart = 12\<rparr>,
        fpga := (fpga s)\<lparr>calls := calls (fpga s) @ [Print ''Preamble data is too long'']\<rparr>\<rparr>,
      Inr PyNone)"
  using i2c_configure_run [of 8 "map Some [1, 2, 3, 4, 5, 6, 7, 8]" 0 0 s]
  by simp

text \<open>
  C3. For a register address that is a non-empty list of bytes, \<open>i2c_write_long\<close>
  configures the buffer with the preamble \<open>devAddr & 0xfe\<close> followed by the register
  address bytes, start mask 0 and stop mask \<open>1 << len(preamble)\<close>, and then is
  \<open>i2c_transmit\<close> on that buffer (a preamble longer than 7 also prints the message of
  \<open>i2c_configure\<close>). In particular, writing \<open>[0x42]\<close> to register \<open>[0x10]\<close> of device
  \<open>0xA0\<close> transfers the cells 2, 0, 4, 1, \<open>0xA0\<close>, \<open>0x10\<close>, \<open>0x42\<close>.
\<close>

theorem C3_i2c_write_long:
  assumes "regAddr = Some (map Some rs)" and "rs \<noteq> []"
  shows "i2c_write_long devAddr regAddr data_length data s =
           i2c_transmit data data_length
             (s\<lparr>i2c := \<lparr>m_pBuf = map Some ([int (length ((devAddr AND 254) # rs)), 0,
                                              push_bit (length ((devAddr AND 254) # rs)) 1, 0]
                                             @ (devAddr AND 254) # rs),
                         m_nDataStart = 4 + int (length ((devAddr AND 254) # rs))\<rparr>,
                fpga := (fpga s)\<lparr>calls := calls (fpga s) @
                  (if 7 < length ((devAddr AND 254) # rs)
                   then [Print ''Preamble data is too long''] else [])\<rparr>\<rparr>)
         \<and> (endpoints s ''MEMSTART'' = Some ms \<and> endpoints s ''IN'' = Some e
              \<and> endpoints s ''MEMWRITE'' = Some w \<and> endpoints s ''START'' = Some st
              \<and> endpoints s ''DONE'' = Some d \<and> triggered (fpga s) (polls (fpga s))
            \<longrightarrow> i2c_write_long 160 (Some [Some 16]) 1 [66] s =
                  (s\<lparr>i2c := \<lparr>m_pBuf = map Some [2, 0, 4, 1, 160, 16, 66], m_nDataStart = 6\<rparr>,
                     fpga := (fpga s)\<lparr>calls := calls (fpga s) @
                         transfer_calls ms e w st [2, 0, 4, 1, 160, 16, 66] @ poll_calls d,
                       polls := Suc (polls (fpga s))\<rparr>\<rparr>,
                   Inr PyTrue))"
proof (rule conjI)
  let ?pre = "Some (devAddr AND 254) # map Some rs"
  have pre: "(case regAddr of None \<Rightarrow> [Some (devAddr AND 254)]
              | Some rs \<Rightarrow> if rs = [None] then [Some (devAddr AND 254)]
                          else [Some (devAddr AND 254)] @ rs) = ?pre"
    using assms by (cases rs) auto
  show "i2c_write_long devAddr regAddr data_length data s =
           i2c_transmit data data_length
             (s\<lparr>i2c := \<lparr>m_pBuf = map Some ([int (length ((devAddr AND 254) # rs)), 0,
                                              push_bit (length ((devAddr AND 254) # rs)) 1, 0]
                                             @ (devAddr AND 254) # rs),
                         m_nDataStart = 4 + int (length ((devAddr AND 254) # rs))\<rparr>,
                fpga := (fpga s)\<lparr>calls := calls (fpga s) @
                  (if 7 < length ((devAddr AND 254) # rs)
                   then [Print ''Preamble data is too long''] else [])\<rparr>\<rparr>)"
  proof -
    have cfg: "i2c_configure (int (length ?pre)) 0 (push_bit (length ?pre) 1) ?pre s =
             (s\<lparr>i2c := \<lparr>m_pBuf = map Some ([int (length ((devAddr AND 254) # rs)), 0,
                                              push_bit (length ((devAddr AND 254) # rs)) 1, 0]
                                             @ (devAddr AND 254) # rs),
                         m_nDataStart = 4 + int (length ((devAddr AND 254) # rs))\<rparr>,
                fpga := (fpga s)\<lparr>calls := calls (fpga s) @
                  (if 7 < length ((devAddr AND 254) # rs)
                   then [Print ''Preamble data is too long''] else [])\<rparr>\<rparr>, Inr PyNone)"
      using i2c_configure_run [of "int (length ?pre)" ?pre 0 "push_bit (length ?pre) 1" s]
      by simp
    show ?thesis
      unfolding i2c_write_long_def pre Let_def
      by (simp only: and_then_apply cfg prod.case sum.case)
  qed
next
  show "endpoints s ''MEMSTART'' = Some ms \<and> endpoints s ''IN'' = Some e
              \<and> endpoints s ''MEMWRITE'' = Some w \<and> endpoints s ''START'' = Some st
              \<and> endpoints s ''DONE'' = Some d \<and> triggered (fpga s) (polls (fpga s))
            \<longrightarrow> i2c_write_long 160 (Some [Some 16]) 1 [66] s =
                  (s\<lparr>i2c := \<lparr>m_pBuf = map Some [2, 0, 4, 1, 160, 16, 66], m_nDataStart = 6\<rparr>,
                     fpga := (fpga s)\<lparr>calls := calls (fpga s) @
                         transfer_calls ms e w st [2, 0, 4, 1, 160, 16, 66] @ poll_calls d,
                       polls := Suc (polls (fpga s))\<rparr>\<rparr>,
                   Inr PyTrue)"
  proof
    assume a: "endpoints s ''MEMSTART'' = Some ms \<and> endpoints s ''IN'' = Some e
              \<and> endpoints s ''MEMWRITE'' = Some w \<and> endpoints s ''START'' = Some st
              \<and> endpoints s ''DONE'' = Some d \<and> triggered (fpga s) (polls (fpga s))"
    let ?c = "s\<lparr>i2c := (i2c s)\<lparr>m_pBuf := map Some [2, 0, 4, 0, 160, 16], m_nDataStart := 6\<rparr>\<rparr>"
    have cfg: "i2c_configure 2 0 4 [Some 160, Some 16] s = (?c, Inr PyNone)"
      using i2c_configure_run [of 2 "[Some 160, Some 16]" 0 4 s] by simp
    have tx: "i2c_transmit [66] 1 ?c =
           (?c\<lparr>i2c := (i2c ?c)\<lparr>m_pBuf := map Some (sent [2, 0, 4, 0, 160, 16] 1 [66])\<rparr>,
              fpga := (fpga ?c)\<lparr>calls := calls (fpga ?c) @
                  transfer_calls ms e w st
                    (take (nat (1 + m_nDataStart (i2c ?c))) (sent [2, 0, 4, 0, 160, 16] 1 [66])) @
                  wait_calls d 1 0 @ poll_calls d,
                polls := polls (fpga ?c) + Suc 0\<rparr>\<rparr>,
            Inr PyTrue)"
      using a by (intro i2c_transmit_done) simp_all
    show "i2c_write_long 160 (Some [Some 16]) 1 [66] s =
                  (s\<lparr>i2c := \<lparr>m_pBuf = map Some [2, 0, 4, 1, 160, 16, 66], m_nDataStart = 6\<rparr>,
                     fpga := (fpga s)\<lparr>calls := calls (fpga s) @
                         transfer_calls ms e w st [2, 0, 4, 1, 160, 16, 66] @ poll_calls d,
                       polls := Suc (polls (fpga s))\<rparr>\<rparr>,
                   Inr PyTrue)"
      unfolding i2c_write_long_def
      by (simp add: and_then_apply cfg tx [simplified] sent_def wait_calls_def)
  qed
qed

theorem C3_witness:
  "Some [Some 16] = Some (map Some [16 :: int]) \<and> [16 :: int] \<noteq> []
   \<and> endpoints (example_self (\<lambda>n. True)) ''DONE'' = Some \<lparr>address = 96, bit_index_low = 0\<rparr>
   \<and> triggered (fpga (example_self (\<lambda>n. True))) (polls (fpga (example_self (\<lambda>n. True))))
   \<and> i2c_write_long 160 (Some [Some 16]) 1 [66] (example_self (\<lambda>n. True)) =
        ((example_self (\<lambda>n. True))\<lparr>i2c := \<lparr>m_pBuf = map Some [2, 0, 4, 1, 160, 16, 66], m_nDataStart = 6\<rparr>,
           fpga := (fpga (example_self (\<lambda>n. True)))\<lparr>calls :=
               transfer_calls \<lparr>address = 64, bit_index_low = 0\<rparr> \<lparr>address = 1, bit_index_low = 8\<rparr>
                 \<lparr>address = 64, bit_index_low = 1\<rparr> \<lparr>address = 64, bit_index_low = 3\<rparr>
                 [2, 0, 4, 1, 160, 16, 66] @
               poll_calls \<lparr>address = 96, bit_index_low = 0\<rparr>,
             polls := 1\<rparr>\<rparr>,
         Inr PyTrue)"
  using C3_i2c_write_long [where regAddr = "Some [Some 16]" and rs = "[16]"
          and s = "example_self (\<lambda>n. True)"
          and ms = "\<lparr>address = 64, bit_index_low = 0\<rparr>" and e = "\<lparr>address = 1, bit_index_low = 8\<rparr>"
          and w = "\<lparr>address = 64, bit_index_low = 1\<rparr>" and st = "\<lparr>address = 64, bit_index_low = 3\<rparr>"
          and d = "\<lparr>address = 96, bit_index_low = 0\<rparr>" and devAddr = 160 and data_length = 1
          and data = "[66]", THEN conjunct2]
  by (simp add: example_self_def example_fpga_def example_endpoints_def)

text \<open>
  C4. \<open>i2c_read_long\<close> configures one of two shapes and then is \<open>i2c_receive\<close> on that
  buffer, whose result it returns. When \<open>regAddr\<close> is \<open>None\<close> or \<open>[None]\<close>: the one-byte
  preamble \<open>devAddr | 1\<close>, start mask 0, stop mask 0. When \<open>regAddr\<close> is a non-empty list
  of bytes: the preamble \<open>devAddr & 0xfe\<close>, the register address bytes, \<open>devAddr | 1\<close>,
  start mask \<open>1 << len(regAddr)\<close>, stop mask 0 (a preamble longer than 7 also prints the
  message of \<open>i2c_configure\<close>).
\<close>

theorem C4_i2c_read_long:
  "(regAddr = None \<or> regAddr = Some [None] \<longrightarrow>
      i2c_read_long devAddr regAddr data_length data_transfer reset_pipe readout s =
        i2c_receive data_length data_transfer reset_pipe readout
          (s\<lparr>i2c := \<lparr>m_pBuf = map Some [1, 0, 0, 0, devAddr OR 1], m_nDataStart = 5\<rparr>\<rparr>))
   \<and> (regAddr = Some (map Some rs) \<and> rs \<noteq> [] \<longrightarrow>
      i2c_read_long devAddr regAddr data_length data_transfer reset_pipe readout s =
        i2c_receive data_length data_transfer reset_pipe readout
          (s\<lparr>i2c := \<lparr>m_pBuf = map Some ([int (length rs) + 2, push_bit (length rs) 1, 0, 0]
                                          @ [devAddr AND 254] @ rs @ [devAddr OR 1]),
                      m_nDataStart = 4 + (int (length rs) + 2)\<rparr>,
             fpga := (fpga s)\<lparr>calls := calls (fpga s) @
               (if 5 < length rs then [Print ''Preamble data is too long''] else [])\<rparr>\<rparr>))"
proof (intro conjI impI)
  have rx: "(if readout
            then and_then (i2c_receive data_length data_transfer reset_pipe readout) (\<lambda>data. ret data)
            else and_then (i2c_receive data_length data_transfer reset_pipe readout) (\<lambda>_. ret PyNone)) c
           = i2c_receive data_length data_transfer reset_pipe readout c" for c
    by (simp add: and_then_ret i2c_receive_then_None)
  {
    assume a: "regAddr = None \<or> regAddr = Some [None]"
    have cfg: "i2c_configure 1 0 0 [Some (devAddr OR 1)] s =
                 (s\<lparr>i2c := \<lparr>m_pBuf = map Some [1, 0, 0, 0, devAddr OR 1], m_nDataStart = 5\<rparr>\<rparr>,
                  Inr PyNone)"
      using i2c_configure_run [of 1 "[Some (devAddr OR 1)]" 0 0 s] by simp
    show "i2c_read_long devAddr regAddr data_length data_transfer reset_pipe readout s =
            i2c_receive data_length data_transfer reset_pipe readout
              (s\<lparr>i2c := \<lparr>m_pBuf = map Some [1, 0, 0, 0, devAddr OR 1], m_nDataStart = 5\<rparr>\<rparr>)"
      unfolding i2c_read_long_def and_then_apply [of "if _ then _ else _"]
      using a by (simp only: if_True cfg prod.case sum.case rx)
  }
  {
    assume a: "regAddr = Some (map Some rs) \<and> rs \<noteq> []"
    let ?pre = "[Some (devAddr AND 254)] @ map Some rs @ [Some (devAddr OR 1)]"
    have no: "\<not> (regAddr = None \<or> regAddr = Some [None])"
      using a by (cases rs) auto
    have the: "the regAddr = map Some rs"
      using a by simp
    have cfg: "i2c_configure (int (length ?pre)) (push_bit (length (map Some rs)) 1) 0 ?pre s =
          (s\<lparr>i2c := \<lparr>m_pBuf = map Some ([int (length rs) + 2, push_bit (length rs) 1, 0, 0]
                                          @ [devAddr AND 254] @ rs @ [devAddr OR 1]),
                      m_nDataStart = 4 + (int (length rs) + 2)\<rparr>,
             fpga := (fpga s)\<lparr>calls := calls (fpga s) @
               (if 5 < length rs then [Print ''Preamble data is too long''] else [])\<rparr>\<rparr>,
           Inr PyNone)"
      using i2c_configure_run [of "int (length ?pre)" ?pre "push_bit (length (map Some rs)) 1" 0 s]
      by simp
    show "i2c_read_long devAddr regAddr data_length data_transfer reset_pipe readout s =
        i2c_receive data_length data_transfer reset_pipe readout
          (s\<lparr>i2c := \<lparr>m_pBuf = map Some ([int (length rs) + 2, push_bit (length rs) 1, 0, 0]
                                          @ [devAddr AND 254] @ rs @ [devAddr OR 1]),
                      m_nDataStart = 4 + (int (length rs) + 2)\<rparr>,
             fpga := (fpga s)\<lparr>calls := calls (fpga s) @
               (if 5 < length rs then [Print ''Preamble data is too long''] else [])\<rparr>\<rparr>)"
      unfolding i2c_read_long_def and_then_apply [of "if _ then _ else _"] Let_def the
      by (simp only: no if_False cfg prod.case sum.case rx)
  }
qed

theorem C4_witness:
  "(None :: int option list option) = None
   \<and> i2c_read_long 160 None 1 ''wire'' True True (example_self (\<lambda>n. True)) =
        i2c_receive 1 ''wire'' True True
          ((example_self (\<lambda>n. True))\<lparr>i2c := \<lparr>m_pBuf = map Some [1, 0, 0, 0, 161], m_nDataStart = 5\<rparr>\<rparr>)
   \<and> Some [Some 16] = Some (map Some [16 :: int]) \<and> [16 :: int] \<noteq> []
   \<and> i2c_read_long 160 (Some [Some 16]) 2 ''wire'' True True (example_self (\<lambda>n. True)) =
        i2c_receive 2 ''wire'' True True
          ((example_self (\<lambda>n. True))\<lparr>i2c := \<lparr>m_pBuf = map Some [3, 2, 0, 0, 160, 16, 161],
                                             m_nDataStart = 7\<rparr>\<rparr>)"
  using C4_i2c_read_long [where regAddr = None and devAddr = 160 and data_length = 1
          and data_transfer = "''wire''" and reset_pipe = True and readout = True
          and s = "example_self (\<lambda>n. True)", THEN conjunct1]
    C4_i2c_read_long [where regAddr = "Some [Some 16]" and rs = "[16]" and devAddr = 160
          and data_length = 2 and data_transfer = "''wire''" and reset_pipe = True
          and readout = True and s = "example_self (\<lambda>n. True)", THEN conjunct2]
  by simp

text \<open>
  C5. On a configured buffer (integer cells, as many as \<open>m_nDataStart\<close> says, at least
  the four control cells), with at least \<open>data_length\<close> bytes of data and the five
  endpoints present, a transmit that sees \<open>DONE\<close> at its poll number \<open>k < 50\<close> stores
  \<open>data_length\<close> in cell 3, appends the first \<open>data_length\<close> bytes, pulses \<open>MEMSTART\<close>,
  transfers all \<open>data_length + m_nDataStart\<close> cells in order (masked write to \<open>IN\<close>,
  update, pulse \<open>MEMWRITE\<close>), pulses \<open>START\<close>, polls, and returns \<open>True\<close>.
\<close>

theorem C5_i2c_transmit_streams:
  assumes "m_pBuf (i2c s) = map Some bs" and "m_nDataStart (i2c s) = int (length bs)"
    and "4 \<le> length bs"
    and "0 \<le> data_length" and "nat data_length \<le> length data"
    and "endpoints s ''MEMSTART'' = Some ms" and "endpoints s ''IN'' = Some e"
    and "endpoints s ''MEMWRITE'' = Some w" and "endpoints s ''START'' = Some st"
    and "endpoints s ''DONE'' = Some d"
    and "k < 50" and "\<forall>j<k. \<not> triggered (fpga s) (polls (fpga s) + j)"
    and "triggered (fpga s) (polls (fpga s) + k)"
  shows "i2c_transmit data data_length s =
           (s\<lparr>i2c := (i2c s)\<lparr>m_pBuf := map Some (bs[3 := data_length] @ take (nat data_length) data)\<rparr>,
              fpga := (fpga s)\<lparr>calls := calls (fpga s) @
                  [ActivateTriggerIn (address ms) (bit_index_low ms)] @
                  concat (map (wire_in_calls e w)
                            (bs[3 := data_length] @ take (nat data_length) data)) @
                  [ActivateTriggerIn (address st) (bit_index_low st)] @
                  wait_calls d 1 k @ poll_calls d,
                polls := polls (fpga s) + Suc k\<rparr>\<rparr>,
            Inr PyTrue)
         \<and> int (length (bs[3 := data_length] @ take (nat data_length) data))
             = data_length + m_nDataStart (i2c s)"
proof -
  have all: "take (nat (data_length + m_nDataStart (i2c s))) (sent bs data_length data)
               = sent bs data_length data"
  proof -
    have "nat (data_length + m_nDataStart (i2c s)) = length (sent bs data_length data)"
      using assms(2,4,5) by (simp add: sent_def nat_add_distrib)
    then show ?thesis by simp
  qed
  have "i2c_transmit data data_length s =
           (s\<lparr>i2c := (i2c s)\<lparr>m_pBuf := map Some (sent bs data_length data)\<rparr>,
              fpga := (fpga s)\<lparr>calls := calls (fpga s) @
                  transfer_calls ms e w st
                    (take (nat (data_length + m_nDataStart (i2c s))) (sent bs data_length data)) @
                  wait_calls d 1 k @ poll_calls d,
                polls := polls (fpga s) + Suc k\<rparr>\<rparr>,
            Inr PyTrue)"
    using assms by (intro i2c_transmit_done) simp_all
  then have "i2c_transmit data data_length s =
           (s\<lparr>i2c := (i2c s)\<lparr>m_pBuf := map Some (sent bs data_length data)\<rparr>,
              fpga := (fpga s)\<lparr>calls := calls (fpga s) @
                  transfer_calls ms e w st (sent bs data_length data) @
                  wait_calls d 1 k @ poll_calls d,
                polls := polls (fpga s) + Suc k\<rparr>\<rparr>,
            Inr PyTrue)"
    unfolding all .
  moreover have "int (length (sent bs data_length data)) = data_length + m_nDataStart (i2c s)"
    using assms(2,4,5) by (simp add: sent_def)
  ultimately show ?thesis
    by (simp add: transfer_calls_def sent_def)
qed

theorem C5_witness:
  "m_pBuf (i2c (example_configured (\<lambda>n. 2 \<le> n))) = map Some [1, 0, 0, 0, 161]
   \<and> m_nDataStart (i2c (example_configured (\<lambda>n. 2 \<le> n))) = int (length [1, 0, 0, 0, 161 :: int])
   \<and> endpoints (example_configured (\<lambda>n. 2 \<le> n)) ''DONE'' = Some \<lparr>address = 96, bit_index_low = 0\<rparr>
   \<and> \<not> triggered (fpga (example_configured (\<lambda>n. 2 \<le> n))) 1
   \<and> triggered (fpga (example_configured (\<lambda>n. 2 \<le> n))) 2
   \<and> i2c_transmit [66, 67] 2 (example_configured (\<lambda>n. 2 \<le> n)) =
        ((example_configured (\<lambda>n. 2 \<le> n))\<lparr>i2c := (i2c (example_configured (\<lambda>n. 2 \<le> n)))
             \<lparr>m_pBuf := map Some [1, 0, 0, 2, 161, 66, 67]\<rparr>,
           fpga := (fpga (example_configured (\<lambda>n. 2 \<le> n)))\<lparr>calls :=
               [ActivateTriggerIn 64 0] @
               concat (map (wire_in_calls \<lparr>address = 1, bit_index_low = 8\<rparr>
                                          \<lparr>address = 64, bit_index_low = 1\<rparr>)
                         [1, 0, 0, 2, 161, 66, 67]) @
               [ActivateTriggerIn 64 3] @
               wait_calls \<lparr>address = 96, bit_index_low = 0\<rparr> 1 2 @
               poll_calls \<lparr>address = 96, bit_index_low = 0\<rparr>,
             polls := 3\<rparr>\<rparr>,
         Inr PyTrue)"
  using C5_i2c_transmit_streams [of "example_configured (\<lambda>n. 2 \<le> n)" "[1, 0, 0, 0, 161]"
          2 "[66, 67]" "\<lparr>address = 64, bit_index_low = 0\<rparr>" "\<lparr>address = 1, bit_index_low = 8\<rparr>"
          "\<lparr>address = 64, bit_index_low = 1\<rparr>" "\<lparr>address = 64, bit_index_low = 3\<rparr>"
          "\<lparr>address = 96, bit_index_low = 0\<rparr>" 2]
  by (simp add: example_configured_def example_self_def example_fpga_def example_endpoints_def
        less_Suc_eq numeral_2_eq_2)




text \<open>
  C7. The claim asks that a timeout be reported to the caller. The polls are as the
  claim says, but on a timeout the code only prints a message and returns \<open>None\<close>, and
  for a receive without readout that is also what a completed call returns: with
  \<open>DONE\<close> never set, \<open>i2c_receive(2, 'wire', True, False)\<close> polls 5 times, sleeping 10 ms
  after each poll, prints and returns \<open>None\<close>; with \<open>DONE\<close> set at the first poll it
  returns \<open>None\<close> as well.
\<close>

theorem C7_timeout_not_reported:
  "snd (i2c_receive 2 ''wire'' True False (example_configured (\<lambda>n. False))) = Inr PyNone
   \<and> calls (fpga (fst (i2c_receive 2 ''wire'' True False (example_configured (\<lambda>n. False)))))
       = [ActivateTriggerIn 64 0,
          SetWireInValue 1 33024 65280, UpdateWireIns, ActivateTriggerIn 64 1,
          SetWireInValue 1 0 65280, UpdateWireIns, ActivateTriggerIn 64 1,
          SetWireInValue 1 0 65280, UpdateWireIns, ActivateTriggerIn 64 1,
          SetWireInValue 1 512 65280, UpdateWireIns, ActivateTriggerIn 64 1,
          SetWireInValue 1 41216 65280, UpdateWireIns, ActivateTriggerIn 64 1,
          ActivateTriggerIn 64 3,
          UpdateTriggerOuts, IsTriggered 96 1, Sleep_ms 10,
          UpdateTriggerOuts, IsTriggered 96 1, Sleep_ms 10,
          UpdateTriggerOuts, IsTriggered 96 1, Sleep_ms 10,
          UpdateTriggerOuts, IsTriggered 96 1, Sleep_ms 10,
          UpdateTriggerOuts, IsTriggered 96 1, Sleep_ms 10,
          Print ''Timeout Exception in Rx'']
   \<and> snd (i2c_receive 2 ''wire'' True False (example_configured (\<lambda>n. True))) = Inr PyNone"
  by code_simp

text \<open>
  C8. As stated, for every pipe-mode receive, the claim fails: the check of the two
  endpoints is made only when \<open>reset_pipe\<close> is true. With \<open>reset_pipe\<close> false and no
  \<open>PIPE_OUT\<close> endpoint, the receive pulses, transfers and polls, and only then raises
  the plain \<open>KeyError\<close> of the dictionary lookup.
\<close>

theorem C8_counterexample:
  "endpoints (example_configured (\<lambda>n. True)) ''PIPE_OUT'' = None
   \<and> snd (i2c_receive 1 ''pipe'' False True (example_configured (\<lambda>n. True)))
       = Inl (KeyError ''PIPE_OUT'')
   \<and> calls (fpga (fst (i2c_receive 1 ''pipe'' False True (example_configured (\<lambda>n. True)))))
       = [ActivateTriggerIn 64 0,
          SetWireInValue 1 33024 65280, UpdateWireIns, ActivateTriggerIn 64 1,
          SetWireInValue 1 0 65280, UpdateWireIns, ActivateTriggerIn 64 1,
          SetWireInValue 1 0 65280, UpdateWireIns, ActivateTriggerIn 64 1,
          SetWireInValue 1 256 65280, UpdateWireIns, ActivateTriggerIn 64 1,
          SetWireInValue 1 41216 65280, UpdateWireIns, ActivateTriggerIn 64 1,
          ActivateTriggerIn 64 3, UpdateTriggerOuts, IsTriggered 96 1]"
  by code_simp

text \<open>
  C8, amended. A pipe-mode receive with \<open>reset_pipe\<close> true, on a controller that lacks
  \<open>FIFO_RESET\<close> or \<open>PIPE_OUT\<close>, raises the \<open>KeyError\<close> that names both endpoints and
  leaves the controller as it was: no call has reached the hardware and the buffer is
  untouched.
\<close>

theorem C8_missing_endpoint:
  assumes "lower data_transfer = ''pipe''"
    and "endpoints s ''FIFO_RESET'' = None \<or> endpoints s ''PIPE_OUT'' = None"
  shows "i2c_receive data_length data_transfer True readout s =
           (s, Inl (KeyError
             ''i2c_receive requires the I2C endpoints FIFO_RESET and PIPE_OUT. One or both are missing.''))"
  using assms by (auto simp: i2c_receive_def seq_apply require_pipe_endpoints_def)

theorem C8_witness:
  "lower ''pipe'' = ''pipe''
   \<and> endpoints (example_configured (\<lambda>n. True)) ''FIFO_RESET'' = None
   \<and> i2c_receive 1 ''pipe'' True True (example_configured (\<lambda>n. True)) =
        (example_configured (\<lambda>n. True), Inl (KeyError
          ''i2c_receive requires the I2C endpoints FIFO_RESET and PIPE_OUT. One or both are missing.''))"
  using C8_missing_endpoint [of "''pipe''" "example_configured (\<lambda>n. True)" 1 True]
  by (simp add: example_configured_def example_self_def example_endpoints_def
        lower_def lower_char_def)

text \<open>
  C9. The claim asks that configuring one chip leave the buffer of another chip alone.
  The chips that \<open>create_chips\<close> returns all refer to the one default dictionary of
  \<open>__init__\<close>: after \<open>i2c_configure(1, 0, 0, [0xA1])\<close> on the first of two chips, the
  second chip's buffer has changed from \<open>[]\<close> to the five configured cells and its
  \<open>m_nDataStart\<close> from 7 to 5.
\<close>

theorem C9_chips_share_dictionary:
  "obj_i2c (create_chips [0, 1] example_endpoints ! 0)
     = obj_i2c (create_chips [0, 1] example_endpoints ! 1)
   \<and> dicts (class_defined (example_fpga (\<lambda>n. True)))
         (obj_i2c (create_chips [0, 1] example_endpoints ! 1))
       = Some \<lparr>m_pBuf = [], m_nDataStart = 7\<rparr>
   \<and> snd (call (create_chips [0, 1] example_endpoints ! 0)
              (i2c_configure 1 0 0 [Some 161])
              (class_defined (example_fpga (\<lambda>n. True))))
       = Inr PyNone
   \<and> dicts (fst (call (create_chips [0, 1] example_endpoints ! 0)
                     (i2c_configure 1 0 0 [Some 161])
                     (class_defined (example_fpga (\<lambda>n. True)))))
         (obj_i2c (create_chips [0, 1] example_endpoints ! 1))
       = Some \<lparr>m_pBuf = map Some [1, 0, 0, 0, 161], m_nDataStart = 5\<rparr>"
  by (simp add: create_chips_def init_def class_defined_def call_def
        i2c_configure_run [of 1 "[Some 161]"])

text \<open>
  C10. When \<open>i2c_receive\<close> returns, after completion or after its timeout, the read flag
  is set, and it stays set through any further calls of \<open>i2c_transmit\<close>, \<open>i2c_receive\<close>
  and \<open>reset_device\<close>, whether they return or raise. So a transmit that is made then
  and returns, with at least one cell to transfer, transfers as its first byte cell 0
  with bit 7 set.
\<close>

theorem C10_read_flag_persists:
  assumes "i2c_receive data_length data_transfer reset_pipe readout s = (s1, Inr r)"
  shows "read_flag (fold invoke later s1)
         \<and> (\<forall>data n s' v.
               0 < n + m_nDataStart (i2c (fold invoke later s1))
               \<and> i2c_transmit data n (fold invoke later s1) = (s', Inr v)
             \<longrightarrow> (\<exists>m e b rest.
                    endpoints (fold invoke later s1) ''MEMSTART'' = Some m
                  \<and> endpoints (fold invoke later s1) ''IN'' = Some e
                  \<and> m_pBuf (i2c (fold invoke later s1)) ! 0 = Some b \<and> bit b 7
                  \<and> calls (fpga s') =
                      calls (fpga (fold invoke later s1)) @
                        ActivateTriggerIn (address m) (bit_index_low m) #
                        SetWireInValue (address e) (push_bit (bit_index_low e) b)
                          (push_bit (bit_index_low e) 255) # rest))"
proof -
  from assms have "read_flag s1"
    by (rule i2c_receive_sets_flag)
  then have flag: "read_flag (fold invoke later s1)"
    by (rule invokes_keep_flag)
  show ?thesis
  proof (intro conjI allI impI)
    show "read_flag (fold invoke later s1)" by (rule flag)
  next
    fix data n s' v
    assume "0 < n + m_nDataStart (i2c (fold invoke later s1))
              \<and> i2c_transmit data n (fold invoke later s1) = (s', Inr v)"
    with flag show "\<exists>m e b rest.
                    endpoints (fold invoke later s1) ''MEMSTART'' = Some m
                  \<and> endpoints (fold invoke later s1) ''IN'' = Some e
                  \<and> m_pBuf (i2c (fold invoke later s1)) ! 0 = Some b \<and> bit b 7
                  \<and> calls (fpga s') =
                      calls (fpga (fold invoke later s1)) @
                        ActivateTriggerIn (address m) (bit_index_low m) #
                        SetWireInValue (address e) (push_bit (bit_index_low e) b)
                          (push_bit (bit_index_low e) 255) # rest"
      using i2c_transmit_streams_flag [of "fold invoke later s1" n data s' v] by blast
  qed
qed

theorem C10_witness:
  "snd (i2c_receive 1 ''wire'' True True (example_configured (\<lambda>n. True))) = Inr (PyData [Some 17])
   \<and> read_flag (fold invoke [Reset_device]
        (fst (i2c_receive 1 ''wire'' True True (example_configured (\<lambda>n. True)))))
   \<and> snd (i2c_transmit [66] 1 (fold invoke [Reset_device]
        (fst (i2c_receive 1 ''wire'' True True (example_configured (\<lambda>n. True)))))) = Inr PyTrue
   \<and> (\<exists>m e b rest.
          endpoints (fold invoke [Reset_device]
            (fst (i2c_receive 1 ''wire'' True True (example_configured (\<lambda>n. True))))) ''MEMSTART''
            = Some m
        \<and> endpoints (fold invoke [Reset_device]
            (fst (i2c_receive 1 ''wire'' True True (example_configured (\<lambda>n. True))))) ''IN''
            = Some e
        \<and> m_pBuf (i2c (fold invoke [Reset_device]
            (fst (i2c_receive 1 ''wire'' True True (example_configured (\<lambda>n. True)))))) ! 0 = Some b
        \<and> bit b 7
        \<and> calls (fpga (fst (i2c_transmit [66] 1 (fold invoke [Reset_device]
              (fst (i2c_receive 1 ''wire'' True True (example_configured (\<lambda>n. True))))))))
           = calls (fpga (fold invoke [Reset_device]
              (fst (i2c_receive 1 ''wire'' True True (example_configured (\<lambda>n. True)))))) @
               ActivateTriggerIn (address m) (bit_index_low m) #
               SetWireInValue (address e) (push_bit (bit_index_low e) b)
                 (push_bit (bit_index_low e) 255) # rest)"
proof -
  let ?S = "example_configured (\<lambda>n. True)"
  let ?S1 = "fst (i2c_receive 1 ''wire'' True True ?S)"
  let ?S2 = "fold invoke [Reset_device] ?S1"
  have r: "snd (i2c_receive 1 ''wire'' True True ?S) = Inr (PyData [Some 17])"
    by code_simp
  then have rx: "i2c_receive 1 ''wire'' True True ?S = (?S1, Inr (PyData [Some 17]))"
    by (simp add: prod_eq_iff)
  have t: "snd (i2c_transmit [66] 1 ?S2) = Inr PyTrue"
    by code_simp
  then have tx: "i2c_transmit [66] 1 ?S2 = (fst (i2c_transmit [66] 1 ?S2), Inr PyTrue)"
    by (simp add: prod_eq_iff)
  have n: "0 < 1 + m_nDataStart (i2c ?S2)"
    by code_simp
  from C10_read_flag_persists [OF rx, of "[Reset_device]"] n tx
  have "read_flag ?S2" and "\<exists>m e b rest.
          endpoints ?S2 ''MEMSTART'' = Some m \<and> endpoints ?S2 ''IN'' = Some e
        \<and> m_pBuf (i2c ?S2) ! 0 = Some b \<and> bit b 7
        \<and> calls (fpga (fst (i2c_transmit [66] 1 ?S2))) = calls (fpga ?S2) @
               ActivateTriggerIn (address m) (bit_index_low m) #
               SetWireInValue (address e) (push_bit (bit_index_low e) b)
                 (push_bit (bit_index_low e) 255) # rest"
    by blast+
  with r t show ?thesis by (simp only: simp_thms)
qed

end
